theory Spec2Isabelle
  imports Complex_Main "HOL-Library.Word"
begin

section \<open>JavaScript strings\<close>

text \<open>
  A JavaScript string is a sequence of 16-bit code units. The provider's pages carry
  characters outside ASCII (the no-break space U+00A0 and the ideographic space U+3000
  fill the spacer rows of its tables), so a string is a list of 16-bit words and not a
  list of 8-bit characters. \<open>js\<close> embeds an ASCII literal.
\<close>

type_synonym jschar = "16 word"
type_synonym jsstring = "jschar list"

definition js :: "string \<Rightarrow> jsstring" where
  "js s = map of_char s"

text \<open>
  The characters matched by the regular expression class \<open>\s\<close> and removed by
  \<open>String.prototype.trim\<close>: ECMAScript's WhiteSpace and LineTerminator.
\<close>

definition is_space :: "jschar \<Rightarrow> bool" where
  "is_space c \<longleftrightarrow>
     c = 0x09 \<or> c = 0x0A \<or> c = 0x0B \<or> c = 0x0C \<or> c = 0x0D \<or> c = 0x20 \<or>
     c = 0xA0 \<or> c = 0x1680 \<or> (0x2000 \<le> c \<and> c \<le> 0x200A) \<or>
     c = 0x2028 \<or> c = 0x2029 \<or> c = 0x202F \<or> c = 0x205F \<or> c = 0x3000 \<or>
     c = 0xFEFF"

text \<open>The character class \<open>\d\<close>: the ASCII digits only.\<close>

definition is_digit :: "jschar \<Rightarrow> bool" where
  "is_digit c \<longleftrightarrow> 0x30 \<le> c \<and> c \<le> 0x39"

text \<open>\<open>s.trim()\<close>\<close>

definition trim :: "jsstring \<Rightarrow> jsstring" where
  "trim s = rev (dropWhile is_space (rev (dropWhile is_space s)))"

text \<open>\<open>s.startsWith(p)\<close>, used to match a literal at the current position.\<close>

fun starts_with :: "jsstring \<Rightarrow> jsstring \<Rightarrow> bool" where
  "starts_with s [] = True"
| "starts_with [] (p # ps) = False"
| "starts_with (c # cs) (p # ps) = (c = p \<and> starts_with cs ps)"

text \<open>\<open>s.includes(p)\<close>\<close>

fun str_includes :: "jsstring \<Rightarrow> jsstring \<Rightarrow> bool" where
  "str_includes [] p = (p = [])"
| "str_includes (c # cs) p = (starts_with (c # cs) p \<or> str_includes cs p)"

text \<open>
  \<open>s.indexOf(c)\<close> and \<open>s.lastIndexOf(c)\<close> for a one-character needle: the position
  of the first (last) occurrence, \<open>-1\<close> when there is none.
\<close>

fun indexOf :: "jsstring \<Rightarrow> jschar \<Rightarrow> int" where
  "indexOf [] c = -1"
| "indexOf (x # xs) c =
     (if x = c then 0
      else (let i = indexOf xs c in if i = -1 then -1 else i + 1))"

fun lastIndexOf :: "jsstring \<Rightarrow> jschar \<Rightarrow> int" where
  "lastIndexOf [] c = -1"
| "lastIndexOf (x # xs) c =
     (let i = lastIndexOf xs c in
      if i \<noteq> -1 then i + 1 else if x = c then 0 else -1)"

text \<open>
  \<open>s.slice(a, b)\<close> (also \<open>Array.prototype.slice\<close>) for integer arguments: a negative
  index counts from the end, both ends are clamped to the length.
\<close>

definition slice_js :: "'a list \<Rightarrow> int \<Rightarrow> int \<Rightarrow> 'a list" where
  "slice_js s a b =
     (let n = int (length s);
          lo = (if a < 0 then max (n + a) 0 else min a n);
          hi = (if b < 0 then max (n + b) 0 else min b n)
      in take (nat (hi - lo)) (drop (nat lo) s))"

section \<open>JavaScript numbers and \<open>Number(text)\<close>\<close>

text \<open>
  A JavaScript number is modelled by the mathematical value it denotes: \<open>NaN\<close>, the two
  infinities, or a rational. The rounding of a literal to the nearest binary64 value is
  not modelled (and \<open>-0\<close> is \<open>0\<close>); which texts convert, and to which literal value, is.
\<close>

datatype jsnum = NaN | PosInfinity | NegInfinity | Finite rat

definition isNaN :: "jsnum \<Rightarrow> bool" where
  "isNaN n \<longleftrightarrow> n = NaN"

text \<open>Digits: the value of a digit in a base, and the value of a digit string.\<close>

definition digit_val :: "jschar \<Rightarrow> nat" where
  "digit_val c =
     (if 0x30 \<le> c \<and> c \<le> 0x39 then unat c - 0x30
      else if 0x61 \<le> c \<and> c \<le> 0x66 then unat c - 0x61 + 10
      else unat c - 0x41 + 10)"

definition is_digit_in :: "nat \<Rightarrow> jschar \<Rightarrow> bool" where
  "is_digit_in base c \<longleftrightarrow>
     (is_digit c \<or> (0x61 \<le> c \<and> c \<le> 0x66) \<or> (0x41 \<le> c \<and> c \<le> 0x46)) \<and>
     digit_val c < base"

definition digits_val :: "nat \<Rightarrow> jsstring \<Rightarrow> nat" where
  "digits_val base ds = foldl (\<lambda>acc c. acc * base + digit_val c) 0 ds"

text \<open>
  \<open>ExponentPart\<close>: \<open>e\<close> or \<open>E\<close>, an optional sign, one or more digits. The result is
  the exponent, \<open>None\<close> when the text is not an exponent part.
\<close>

definition exponent_part :: "jsstring \<Rightarrow> int option" where
  "exponent_part s =
     (case s of
        [] \<Rightarrow> None
      | c # r \<Rightarrow>
          if c = 0x65 \<or> c = 0x45 then
            (case r of
               [] \<Rightarrow> None
             | d # r' \<Rightarrow>
                 if d = 0x2B then
                   (if r' \<noteq> [] \<and> list_all is_digit r' then Some (int (digits_val 10 r')) else None)
                 else if d = 0x2D then
                   (if r' \<noteq> [] \<and> list_all is_digit r' then Some (- int (digits_val 10 r')) else None)
                 else if list_all is_digit r then Some (int (digits_val 10 r)) else None)
          else None)"

definition pow10 :: "int \<Rightarrow> rat" where
  "pow10 e = (if 0 \<le> e then 10 ^ nat e else 1 / 10 ^ nat (- e))"

text \<open>
  \<open>StrUnsignedDecimalLiteral\<close>: \<open>Infinity\<close>, or digits with an optional fraction and
  an optional exponent part, with at least one digit before or after the point.
\<close>

definition unsigned_decimal :: "jsstring \<Rightarrow> jsnum" where
  "unsigned_decimal s =
     (if s = js ''Infinity'' then PosInfinity
      else
        (let ip = takeWhile is_digit s;
             r1 = dropWhile is_digit s;
             has_dot = (r1 \<noteq> [] \<and> hd r1 = 0x2E);
             r2 = (if has_dot then tl r1 else r1);
             fp = (if has_dot then takeWhile is_digit r2 else []);
             r3 = (if has_dot then dropWhile is_digit r2 else r2);
             m = of_nat (digits_val 10 ip) + of_nat (digits_val 10 fp) / 10 ^ length fp
         in if ip = [] \<and> fp = [] then NaN
            else if r3 = [] then Finite m
            else (case exponent_part r3 of
                    None \<Rightarrow> NaN
                  | Some e \<Rightarrow> Finite (m * pow10 e))))"

definition negate :: "jsnum \<Rightarrow> jsnum" where
  "negate n =
     (case n of NaN \<Rightarrow> NaN | PosInfinity \<Rightarrow> NegInfinity | NegInfinity \<Rightarrow> PosInfinity
      | Finite q \<Rightarrow> Finite (- q))"

text \<open>\<open>NonDecimalIntegerLiteral\<close>: \<open>0x\<close>, \<open>0o\<close> or \<open>0b\<close> and digits of that base.\<close>

definition non_decimal :: "jsstring \<Rightarrow> jsnum option" where
  "non_decimal s =
     (case s of
        z # p # ds \<Rightarrow>
          (let base = (if p = 0x78 \<or> p = 0x58 then 16
                       else if p = 0x6F \<or> p = 0x4F then 8
                       else if p = 0x62 \<or> p = 0x42 then 2 else (0::nat))
           in if z = 0x30 \<and> base \<noteq> 0 then
                Some (if ds \<noteq> [] \<and> list_all (is_digit_in base) ds
                      then Finite (of_nat (digits_val base ds)) else NaN)
              else None)
      | _ \<Rightarrow> None)"

text \<open>
  \<open>Number(text)\<close> for a string argument (StringToNumber): white space around the
  literal is ignored, the empty text converts to \<open>0\<close>, a text that is not a
  \<open>StrNumericLiteral\<close> converts to \<open>NaN\<close>.
\<close>

definition Number :: "jsstring \<Rightarrow> jsnum" where
  "Number text =
     (let s = trim text in
      if s = [] then Finite 0
      else (case non_decimal s of
              Some n \<Rightarrow> n
            | None \<Rightarrow>
                if hd s = 0x2B then unsigned_decimal (tl s)
                else if hd s = 0x2D then negate (unsigned_decimal (tl s))
                else unsigned_decimal s))"

section \<open>The numeric normalizer\<close>

text \<open>
  \<open>parseKoreanNumber\<close> (index.js, lines 36-41). \<open>null\<close> is \<open>None\<close>. The argument is a
  string at every call site; \<open>!text\<close> holds for the empty string only.
\<close>

definition parseKoreanNumber :: "jsstring \<Rightarrow> jsnum option" where
  "parseKoreanNumber text =
     (if text = [] then None
      else
        (let cleaned = filter (\<lambda>c. \<not> is_space c) (filter (\<lambda>c. c \<noteq> 0x2C) text);
             num = Number cleaned
         in if isNaN num then None else Some num))"

section \<open>Errors and JSON values\<close>

text \<open>
  Every \<open>throw\<close> of the program and every exception of the library calls it makes is a
  value of \<open>error\<close>; a function that can throw returns \<open>error + 'a\<close>.
\<close>

datatype error =
    FetchFailed nat        \<comment> \<open>\<open>Error("Fetch failed: <status>")\<close>, line 21\<close>
  | NetworkError           \<comment> \<open>\<open>fetch\<close> or \<open>axios.get\<close> rejected\<close>
  | JsonNotFound           \<comment> \<open>the \<open>Error\<close> thrown at line 85\<close>
  | SyntaxError            \<comment> \<open>thrown by \<open>JSON.parse\<close>\<close>
  | ApiError jsstring      \<comment> \<open>the \<open>Error\<close> thrown at line 92, with the text after the colon\<close>
  | TypeError              \<comment> \<open>a property read of \<open>null\<close>, a call of a non-function\<close>
  | URIError               \<comment> \<open>thrown by \<open>encodeURIComponent\<close>\<close>

definition and_then :: "error + 'a \<Rightarrow> ('a \<Rightarrow> error + 'b) \<Rightarrow> error + 'b" where
  "and_then m f = (case m of Inl e \<Rightarrow> Inl e | Inr x \<Rightarrow> f x)"

text \<open>
  The values \<open>JSON.parse\<close> produces. An object is the list of its own properties;
  \<open>undefined\<close> is the \<open>None\<close> of \<open>json option\<close>.
\<close>

datatype json =
    JNull
  | JBool bool
  | JNum jsnum
  | JStr jsstring
  | JArr "json list"
  | JObj "(jsstring \<times> json) list"

text \<open>
  The library functions of the JavaScript runtime that are not modelled further, and the
  network as it answers during one call.
\<close>

datatype elem =
  Elem (elem_text: jsstring) (elem_attr: "jsstring \<Rightarrow> jsstring option")
       (elem_find: "jsstring \<Rightarrow> elem list")

record dom =
  select :: "jsstring \<Rightarrow> elem list"
  html :: jsstring

record response =
  ok :: bool
  status :: nat
  document :: dom

record env =
  JSON_parse :: "jsstring \<Rightarrow> json option"
  Number_toString :: "jsnum \<Rightarrow> jsstring"
  Number_toFixed :: "jsnum \<Rightarrow> nat \<Rightarrow> jsstring"
  encodeURIComponent :: "jsstring \<Rightarrow> jsstring option"
  fetch :: "jsstring \<Rightarrow> error + response"
  axios_get :: "jsstring \<Rightarrow> error + jsstring"

text \<open>
  \<open>v.key\<close> for a value that is not \<open>null\<close>, and a key that is no built-in property of
  strings, numbers, booleans or arrays: an own property of an object, \<open>undefined\<close>
  otherwise.
\<close>

definition field :: "json \<Rightarrow> jsstring \<Rightarrow> json option" where
  "field v key = (case v of JObj kvs \<Rightarrow> map_of kvs key | _ \<Rightarrow> None)"

text \<open>\<open>v.key\<close>: reading a property of \<open>null\<close> throws.\<close>

definition get_prop :: "json \<Rightarrow> jsstring \<Rightarrow> error + json option" where
  "get_prop v key = (if v = JNull then Inl TypeError else Inr (field v key))"

text \<open>The truth value of a value in a condition (\<open>ToBoolean\<close>).\<close>

definition truthy :: "json option \<Rightarrow> bool" where
  "truthy v =
     (case v of
        None \<Rightarrow> False
      | Some JNull \<Rightarrow> False
      | Some (JBool b) \<Rightarrow> b
      | Some (JNum n) \<Rightarrow> n \<noteq> NaN \<and> n \<noteq> Finite 0
      | Some (JStr s) \<Rightarrow> s \<noteq> []
      | Some _ \<Rightarrow> True)"

text \<open>\<open>v == null\<close>: \<open>null\<close> or \<open>undefined\<close>.\<close>

definition nullish :: "json option \<Rightarrow> bool" where
  "nullish v \<longleftrightarrow> v = None \<or> v = Some JNull"

text \<open>
  \<open>String(v)\<close> and the conversion inside a template literal (\<open>ToString\<close>). An array
  joins its elements with commas, \<open>null\<close> elements as the empty text. A parsed object
  converts through \<open>Object.prototype.toString\<close>, unless it has an own property
  \<open>toString\<close>: that one is not callable, and neither its own nor the inherited
  \<open>valueOf\<close> gives a primitive, so the conversion throws.
\<close>

fun to_string :: "env \<Rightarrow> json \<Rightarrow> error + jsstring"
  and join_elems :: "env \<Rightarrow> json list \<Rightarrow> error + jsstring"
  and elem_string :: "env \<Rightarrow> json \<Rightarrow> error + jsstring"
where
  "to_string E JNull = Inr (js ''null'')"
| "to_string E (JBool b) = Inr (if b then js ''true'' else js ''false'')"
| "to_string E (JNum n) = Inr (Number_toString E n)"
| "to_string E (JStr s) = Inr s"
| "to_string E (JArr xs) = join_elems E xs"
| "to_string E (JObj kvs) =
     (if map_of kvs (js ''toString'') = None then Inr (js ''[object Object]'')
      else Inl TypeError)"
| "join_elems E [] = Inr []"
| "join_elems E [x] = elem_string E x"
| "join_elems E (x # y # ys) =
     and_then (elem_string E x) (\<lambda>a.
     and_then (join_elems E (y # ys)) (\<lambda>b. Inr (a @ js '','' @ b)))"
| "elem_string E JNull = Inr []"
| "elem_string E (JBool b) = to_string E (JBool b)"
| "elem_string E (JNum n) = to_string E (JNum n)"
| "elem_string E (JStr s) = to_string E (JStr s)"
| "elem_string E (JArr xs) = to_string E (JArr xs)"
| "elem_string E (JObj kvs) = to_string E (JObj kvs)"

section \<open>Records returned to the tool layer\<close>

text \<open>
  The pair \<open>{raw, value}\<close> of every numeric field; \<open>val\<close> is the field \<open>value\<close>, and
  \<open>None\<close> is \<open>null\<close>.
\<close>

record measured =
  raw :: jsstring
  val :: "jsnum option"

text \<open>An item of the fund listing (lines 100-142).\<close>

record etf_item =
  etf_name :: "json option"
  etf_code :: "json option"
  etf_currentPrice :: measured
  etf_nav :: measured
  etf_changeRate :: "jsstring option"
  etf_threeMonthReturn :: "jsstring option"
  etf_volume :: measured
  etf_tradingValueMillion :: measured
  etf_marketCapHundredMillion :: measured

text \<open>The object every listing returns: the request URL and the items.\<close>

record 'a listing =
  url :: jsstring
  items :: "'a list"

definition BASE :: jsstring where
  "BASE = js ''https://finance.naver.com''"

section \<open>The fund listing: \<open>getEtfsByMarketCap\<close>\<close>

text \<open>\<open>String(v ?? "")\<close> (lines 105, 129, 134, 139) and \<open>v == null ? "" : String(v)\<close> (line 110).\<close>

definition raw_text :: "env \<Rightarrow> json option \<Rightarrow> error + jsstring" where
  "raw_text E v = (case v of None \<Rightarrow> Inr [] | Some JNull \<Rightarrow> Inr [] | Some x \<Rightarrow> to_string E x)"

text \<open>\<open>typeof v === "number" ? v : null\<close>\<close>

definition number_or_null :: "json option \<Rightarrow> jsnum option" where
  "number_or_null v = (case v of Some (JNum n) \<Rightarrow> Some n | _ \<Rightarrow> None)"

definition measured_field :: "env \<Rightarrow> json option \<Rightarrow> error + measured" where
  "measured_field E v =
     and_then (raw_text E v) (\<lambda>r. Inr \<lparr>raw = r, val = number_or_null v\<rparr>)"

text \<open>
  \<open>v == null ? null : v.toFixed ? v.toFixed(2) : String(v)\<close> (lines 114-126). A number
  has the method \<open>toFixed\<close>; a parsed object has it only as an own property, which is
  not a function, and calling it throws when it is truthy.
\<close>

definition rate_text :: "env \<Rightarrow> json option \<Rightarrow> error + jsstring option" where
  "rate_text E v =
     (case v of
        None \<Rightarrow> Inr None
      | Some JNull \<Rightarrow> Inr None
      | Some (JNum n) \<Rightarrow> Inr (Some (Number_toFixed E n 2))
      | Some x \<Rightarrow>
          if truthy (field x (js ''toFixed'')) then Inl TypeError
          else and_then (to_string E x) (\<lambda>s. Inr (Some s)))"

text \<open>The callback of \<open>map\<close> (lines 97-143); reading a property of a \<open>null\<close> item throws.\<close>

definition etf_record :: "env \<Rightarrow> json \<Rightarrow> error + etf_item" where
  "etf_record E etf =
     and_then (get_prop etf (js ''itemname'')) (\<lambda>itemname.
     and_then (measured_field E (field etf (js ''nowVal''))) (\<lambda>currentPrice.
     and_then (measured_field E (field etf (js ''nav''))) (\<lambda>nav.
     and_then (rate_text E (field etf (js ''changeRate''))) (\<lambda>changeRate.
     and_then (rate_text E (field etf (js ''threeMonthEarnRate''))) (\<lambda>threeMonthReturn.
     and_then (measured_field E (field etf (js ''quant''))) (\<lambda>volume.
     and_then (measured_field E (field etf (js ''amonut''))) (\<lambda>tradingValueMillion.
     and_then (measured_field E (field etf (js ''marketSum''))) (\<lambda>marketCapHundredMillion.
       Inr \<lparr>etf_name = itemname,
            etf_code = field etf (js ''itemcode''),
            etf_currentPrice = currentPrice,
            etf_nav = nav,
            etf_changeRate = changeRate,
            etf_threeMonthReturn = threeMonthReturn,
            etf_volume = volume,
            etf_tradingValueMillion = tradingValueMillion,
            etf_marketCapHundredMillion = marketCapHundredMillion\<rparr>))))))))"

text \<open>\<open>xs.map(f)\<close> for a callback that can throw: the first exception ends the call.\<close>

fun map_err :: "('a \<Rightarrow> error + 'b) \<Rightarrow> 'a list \<Rightarrow> error + 'b list" where
  "map_err f [] = Inr []"
| "map_err f (x # xs) =
     and_then (f x) (\<lambda>y. and_then (map_err f xs) (\<lambda>ys. Inr (y # ys)))"

text \<open>\<open>${v || "unknown"}\<close> (line 92): the text of a truthy status, \<open>unknown\<close> otherwise.\<close>

definition code_or_unknown :: "env \<Rightarrow> json option \<Rightarrow> error + jsstring" where
  "code_or_unknown E v =
     (case v of
        None \<Rightarrow> Inr (js ''unknown'')
      | Some c \<Rightarrow> if truthy v then to_string E c else Inr (js ''unknown''))"

text \<open>\<open>v?.key\<close> and \<open>v ?? d\<close>\<close>

definition opt_field :: "json option \<Rightarrow> jsstring \<Rightarrow> json option" where
  "opt_field v key = (case v of None \<Rightarrow> None | Some JNull \<Rightarrow> None | Some x \<Rightarrow> field x key)"

definition or_default :: "json option \<Rightarrow> json \<Rightarrow> json" where
  "or_default v d = (case v of None \<Rightarrow> d | Some JNull \<Rightarrow> d | Some x \<Rightarrow> x)"

text \<open>
  Lines 91-148, from the parsed envelope on. \<open>json.result?.etfItemList ?? []\<close> (line 95)
  is the empty array when the payload or its list is \<open>null\<close> or missing. Only an array
  has both \<open>slice\<close> and \<open>map\<close>: for any other list value line 97 throws.
\<close>

definition etfItemList :: "json \<Rightarrow> json" where
  "etfItemList json =
     or_default (opt_field (field json (js ''result'')) (js ''etfItemList'')) (JArr [])"

definition etf_listing :: "env \<Rightarrow> jsstring \<Rightarrow> int \<Rightarrow> json \<Rightarrow> error + etf_item listing" where
  "etf_listing E apiUrl limit json =
     and_then (get_prop json (js ''resultCode'')) (\<lambda>resultCode.
       if resultCode \<noteq> Some (JStr (js ''success'')) then
         and_then (code_or_unknown E resultCode) (\<lambda>c. Inl (ApiError c))
       else
         (case etfItemList json of
            JArr xs \<Rightarrow>
              and_then (map_err (etf_record E) (slice_js xs 0 limit)) (\<lambda>its.
                Inr \<lparr>url = apiUrl, items = its\<rparr>)
          | _ \<Rightarrow> Inl TypeError))"

text \<open>
  Lines 82-88: the text between the first \<open>{\<close> and the last \<open>}\<close> of the decoded
  response.
\<close>

definition extract_json_text :: "jsstring \<Rightarrow> error + jsstring" where
  "extract_json_text decoded =
     (let firstBrace = indexOf decoded 0x7B;
          lastBrace = lastIndexOf decoded 0x7D
      in if firstBrace = -1 \<or> lastBrace = -1 then Inl JsonNotFound
         else Inr (slice_js decoded firstBrace (lastBrace + 1)))"

text \<open>
  Lines 79-148, from the decoded response body on: \<open>trim\<close>, extraction, \<open>JSON.parse\<close>,
  the status check and the items.
\<close>

definition etf_from_body :: "env \<Rightarrow> jsstring \<Rightarrow> int \<Rightarrow> jsstring \<Rightarrow> error + etf_item listing" where
  "etf_from_body E apiUrl limit body =
     (let decoded = trim body in
      and_then (extract_json_text decoded) (\<lambda>jsonText.
        case JSON_parse E jsonText of
          None \<Rightarrow> Inl SyntaxError
        | Some json \<Rightarrow> etf_listing E apiUrl limit json))"

text \<open>
  \<open>getEtfsByMarketCap\<close> (lines 55-149). \<open>axios_get\<close> is the request of lines 66-76
  followed by the EUC-KR decoding of line 79: it gives the decoded body, or the error of
  a failed request.
\<close>

definition etf_api_url :: "env \<Rightarrow> jsnum \<Rightarrow> jsstring \<Rightarrow> jsstring \<Rightarrow> jsstring" where
  "etf_api_url E etfType targetColumn sortOrder =
     BASE @ js ''/api/sise/etfItemList.nhn?etfType='' @ Number_toString E etfType @
     js ''&targetColumn='' @ targetColumn @ js ''&sortOrder='' @ sortOrder"

definition getEtfsByMarketCap ::
  "env \<Rightarrow> int \<Rightarrow> jsnum \<Rightarrow> jsstring \<Rightarrow> jsstring \<Rightarrow> error + etf_item listing" where
  "getEtfsByMarketCap E limit etfType targetColumn sortOrder =
     (let apiUrl = etf_api_url E etfType targetColumn sortOrder
      in and_then (axios_get E apiUrl) (etf_from_body E apiUrl limit))"

section \<open>Documents and selections\<close>

text \<open>
  The table extractors read the page through cheerio. An element is modelled by what
  the program can observe of it: its text content, its attributes, and the elements
  \<open>$(el).find(selector)\<close> gives, in document order. A document gives the elements of
  \<open>$(selector)\<close> and its serialised markup \<open>$.html()\<close>. A selection is a list of
  elements.
\<close>

type_synonym selection = "elem list"

definition first_sel :: "selection \<Rightarrow> selection" where
  "first_sel xs = take 1 xs"

definition last_sel :: "selection \<Rightarrow> selection" where
  "last_sel xs = (if xs = [] then [] else [last xs])"

definition eq_sel :: "selection \<Rightarrow> nat \<Rightarrow> selection" where
  "eq_sel xs i = (if i < length xs then [xs ! i] else [])"

text \<open>\<open>.text()\<close>: the texts of the selected elements, concatenated.\<close>

definition text_sel :: "selection \<Rightarrow> jsstring" where
  "text_sel xs = concat (map elem_text xs)"

text \<open>\<open>.attr(name)\<close>: the attribute of the first element, \<open>undefined\<close> without one.\<close>

definition attr_sel :: "selection \<Rightarrow> jsstring \<Rightarrow> jsstring option" where
  "attr_sel xs k = (case xs of [] \<Rightarrow> None | x # _ \<Rightarrow> elem_attr x k)"

text \<open>\<open>.find(selector)\<close> on a selection; the program calls it on at most one element.\<close>

definition find_sel :: "selection \<Rightarrow> jsstring \<Rightarrow> selection" where
  "find_sel xs q = concat (map (\<lambda>e. elem_find e q) xs)"

text \<open>\<open>v || ""\<close> for a string that may be \<open>undefined\<close>.\<close>

definition or_empty :: "jsstring option \<Rightarrow> jsstring" where
  "or_empty v = (case v of None \<Rightarrow> [] | Some s \<Rightarrow> s)"

text \<open>
  \<open>.each(callback)\<close>: the callback sees the elements in order and ends the loop by
  returning \<open>false\<close>. The callback of the model takes the items pushed so far and
  returns them with \<open>True\<close> to go on, \<open>False\<close> to stop.
\<close>

fun each :: "('s \<Rightarrow> elem \<Rightarrow> 's \<times> bool) \<Rightarrow> elem list \<Rightarrow> 's \<Rightarrow> 's" where
  "each f [] s = s"
| "each f (el # els) s =
     (case f s el of (s', continue) \<Rightarrow> if continue then each f els s' else s')"

text \<open>
  \<open>href.match(/code=(\d{6})/)\<close>, first group: the six digits of the leftmost
  \<open>code=\<close> that six digits follow; \<open>None\<close> is the \<open>null\<close> of no match.
\<close>

fun match_code :: "jsstring \<Rightarrow> jsstring option" where
  "match_code [] = None"
| "match_code (c # cs) =
     (let rest = drop 5 (c # cs) in
      if starts_with (c # cs) (js ''code='') \<and> 6 \<le> length rest \<and> list_all is_digit (take 6 rest)
      then Some (take 6 rest)
      else match_code cs)"

text \<open>\<open>href.match(/no=(\d+)/)\<close>, first group: the digits after the leftmost \<open>no=\<close>
  that a digit follows.\<close>

fun match_no :: "jsstring \<Rightarrow> jsstring option" where
  "match_no [] = None"
| "match_no (c # cs) =
     (let ds = takeWhile is_digit (drop 3 (c # cs)) in
      if starts_with (c # cs) (js ''no='') \<and> ds \<noteq> [] then Some ds
      else match_no cs)"

text \<open>
  \<open>fetchHtml\<close> (lines 13-31). \<open>fetch\<close> gives the response with its body decoded from
  EUC-KR and loaded by cheerio, or the error of a failed request.
\<close>

definition fetchHtml :: "env \<Rightarrow> jsstring \<Rightarrow> error + dom" where
  "fetchHtml E u =
     and_then (fetch E u) (\<lambda>res.
       if \<not> ok res then Inl (FetchFailed (status res)) else Inr (document res))"

section \<open>The table listings\<close>

record theme_item =
  themeName :: jsstring
  themeId :: "jsstring option"
  theme_changeRate :: jsstring
  leaders :: "jsstring list"

record stock_item =
  stock_name :: jsstring
  stock_code :: "jsstring option"
  stock_currentPrice :: measured

record dividend_item =
  div_name :: jsstring
  div_code :: "jsstring option"
  div_currentPrice :: measured
  baseMonth :: jsstring
  dividend :: measured
  dividendYield :: jsstring
  payoutRatio :: jsstring

record 'a paged_listing = "'a listing" +
  page :: jsnum

record 'a market_listing = "'a paged_listing" +
  sosok :: jsnum

text \<open>\<open>{raw: text, value: parseKoreanNumber(text)}\<close>\<close>

definition measured_text :: "jsstring \<Rightarrow> measured" where
  "measured_text t = \<lparr>raw = t, val = parseKoreanNumber t\<rparr>"

text \<open>\<open>if (items.length >= limit) return false\<close>: \<open>True\<close> to go on.\<close>

definition go_on :: "'a list \<Rightarrow> int \<Rightarrow> bool" where
  "go_on its limit \<longleftrightarrow> \<not> (limit \<le> int (length its))"

subsection \<open>\<open>getThemesWithLeaders\<close> (lines 156-197)\<close>

definition theme_name :: "elem \<Rightarrow> jsstring" where
  "theme_name el = trim (text_sel (first_sel (elem_find el (js ''td.col_type1 a''))))"

definition theme_record :: "elem \<Rightarrow> theme_item" where
  "theme_record el =
     (let themeAnchor = first_sel (elem_find el (js ''td.col_type1 a''));
          themeName = trim (text_sel themeAnchor);
          href = or_empty (attr_sel themeAnchor (js ''href''));
          themeId = match_no href;
          tds = elem_find el (js ''td'');
          changeRateText = trim (text_sel (elem_find el (js ''td.col_type2 span'')));
          leadersTd = last_sel tds;
          leaders = filter (\<lambda>s. s \<noteq> [])
                      (map (\<lambda>a. trim (text_sel [a])) (find_sel leadersTd (js ''a'')))
      in \<lparr>themeName = themeName, themeId = themeId, theme_changeRate = changeRateText,
          leaders = leaders\<rparr>)"

definition theme_row :: "int \<Rightarrow> theme_item list \<Rightarrow> elem \<Rightarrow> theme_item list \<times> bool" where
  "theme_row limit its el =
     (if theme_name el = [] then (its, True)
      else (let its' = its @ [theme_record el] in (its', go_on its' limit)))"

definition theme_url :: jsstring where
  "theme_url = BASE @ js ''/sise/theme.naver''"

definition getThemesWithLeaders :: "env \<Rightarrow> int \<Rightarrow> error + theme_item listing" where
  "getThemesWithLeaders E limit =
     (let u = theme_url in
      and_then (fetchHtml E u) (\<lambda>D.
        Inr \<lparr>url = u, items = each (theme_row limit) (select D (js ''table tbody tr'')) []\<rparr>))"

subsection \<open>\<open>getMarketCapStocks\<close> (lines 201-238)\<close>

definition market_name :: "elem \<Rightarrow> jsstring" where
  "market_name el = trim (text_sel (first_sel (elem_find el (js ''td:nth-child(2) a''))))"

definition market_record :: "elem \<Rightarrow> stock_item" where
  "market_record el =
     (let nameAnchor = first_sel (elem_find el (js ''td:nth-child(2) a''));
          name = trim (text_sel nameAnchor);
          href = or_empty (attr_sel nameAnchor (js ''href''));
          code = match_code href;
          currentPriceText = trim (text_sel (elem_find el (js ''td:nth-child(3)'')))
      in \<lparr>stock_name = name, stock_code = code,
          stock_currentPrice = measured_text currentPriceText\<rparr>)"

definition market_row :: "int \<Rightarrow> stock_item list \<Rightarrow> elem \<Rightarrow> stock_item list \<times> bool" where
  "market_row limit its el =
     (if market_name el = [] then (its, True)
      else (let its' = its @ [market_record el] in (its', go_on its' limit)))"

definition market_url :: "env \<Rightarrow> jsnum \<Rightarrow> jsnum \<Rightarrow> jsstring" where
  "market_url E sosok_arg page_arg =
     BASE @ js ''/sise/sise_market_sum.naver?sosok='' @ Number_toString E sosok_arg @
     js ''&page='' @ Number_toString E page_arg"

definition getMarketCapStocks ::
  "env \<Rightarrow> jsnum \<Rightarrow> jsnum \<Rightarrow> int \<Rightarrow> error + stock_item market_listing" where
  "getMarketCapStocks E sosok_arg page_arg limit =
     (let u = market_url E sosok_arg page_arg
      in and_then (fetchHtml E u) (\<lambda>D.
           Inr \<lparr>url = u,
                items = each (market_row limit) (select D (js ''table.type_2 tbody tr'')) [],
                page = page_arg, sosok = sosok_arg\<rparr>))"

subsection \<open>\<open>getDividendYieldStocks\<close> (lines 242-288)\<close>

definition dividend_name :: "elem \<Rightarrow> jsstring" where
  "dividend_name el = trim (text_sel (first_sel (elem_find el (js ''td.txt.frst a''))))"

definition dividend_record :: "elem \<Rightarrow> dividend_item" where
  "dividend_record el =
     (let nameAnchor = first_sel (elem_find el (js ''td.txt.frst a''));
          name = trim (text_sel nameAnchor);
          href = or_empty (attr_sel nameAnchor (js ''href''));
          code = match_code href;
          tds = elem_find el (js ''td'');
          currentPriceText = trim (text_sel (eq_sel tds 1));
          baseMonthText = trim (text_sel (eq_sel tds 2));
          dividendText = trim (text_sel (eq_sel tds 3));
          yieldText = trim (text_sel (eq_sel tds 4));
          payoutRatioText = trim (text_sel (eq_sel tds 5))
      in \<lparr>div_name = name, div_code = code,
          div_currentPrice = measured_text currentPriceText,
          baseMonth = baseMonthText,
          dividend = measured_text dividendText,
          dividendYield = yieldText,
          payoutRatio = payoutRatioText\<rparr>)"

definition dividend_row ::
  "int \<Rightarrow> dividend_item list \<Rightarrow> elem \<Rightarrow> dividend_item list \<times> bool" where
  "dividend_row limit its el =
     (if dividend_name el = [] then (its, True)
      else (let its' = its @ [dividend_record el] in (its', go_on its' limit)))"

definition dividend_url :: "env \<Rightarrow> jsnum \<Rightarrow> jsstring" where
  "dividend_url E page_arg =
     BASE @ js ''/sise/dividend_list.naver?page='' @ Number_toString E page_arg"

definition getDividendYieldStocks ::
  "env \<Rightarrow> jsnum \<Rightarrow> int \<Rightarrow> error + dividend_item paged_listing" where
  "getDividendYieldStocks E page_arg limit =
     (let u = dividend_url E page_arg
      in and_then (fetchHtml E u) (\<lambda>D.
           Inr \<lparr>url = u,
                items = each (dividend_row limit) (select D (js ''table.tb_ty tbody tr'')) [],
                page = page_arg\<rparr>))"

section \<open>The name search: \<open>searchStockCodeByName\<close> (lines 291-338)\<close>

record found =
  found_name :: jsstring
  found_code :: jsstring

text \<open>\<open>{url, result, message}\<close>: \<open>result\<close> is \<open>null\<close> and a message is set when no code
  was found; otherwise there is no message.\<close>

record search_output =
  search_url :: jsstring
  result :: "found option"
  message :: "jsstring option"

text \<open>The message of line 327, as UTF-16 code units.\<close>

definition not_found_message :: jsstring where
  "not_found_message =
     [0xAC80, 0xC0C9, 0x0020, 0xACB0, 0xACFC, 0xC5D0, 0xC11C, 0x0020, 0xC885, 0xBAA9,
      0x0020, 0xCF54, 0xB4DC, 0xB97C, 0x0020, 0xCC3E, 0xC9C0, 0x0020, 0xBABB, 0xD588,
      0xC2B5, 0xB2C8, 0xB2E4, 0x002E]"

text \<open>\<open>!code\<close> for a code that is a string or \<open>null\<close>.\<close>

definition no_code :: "jsstring option \<Rightarrow> bool" where
  "no_code c \<longleftrightarrow> c = None \<or> c = Some []"

text \<open>\<open>a || b\<close> on strings.\<close>

definition or_else :: "jsstring \<Rightarrow> jsstring \<Rightarrow> jsstring" where
  "or_else a b = (if a \<noteq> [] then a else b)"

text \<open>Lines 296-306: the first anchor with a detail link, its name and its code.\<close>

definition detail_link :: "elem \<Rightarrow> bool" where
  "detail_link a \<longleftrightarrow>
     str_includes (or_empty (attr_sel [a] (js ''href''))) (js ''/item/main.naver?code='')"

definition firstItemLink :: "dom \<Rightarrow> selection" where
  "firstItemLink D = first_sel (filter detail_link (select D (js ''a'')))"

text \<open>Lines 316-318: the company name of the page title.\<close>

definition titleName :: "dom \<Rightarrow> jsstring" where
  "titleName D =
     or_else (trim (text_sel (first_sel (select D (js ''div.wrap_company h2 a'')))))
             (trim (text_sel (first_sel (select D (js ''div.wrap_company h2'')))))"

text \<open>
  Lines 296-337, from the loaded document on. The variables \<open>name\<close> and \<open>code\<close> are
  assigned twice; the pair \<open>(name2, code2)\<close> is their value after the second stage.
\<close>

definition search_document :: "jsstring \<Rightarrow> jsstring \<Rightarrow> dom \<Rightarrow> search_output" where
  "search_document u query D =
     (let name = trim (text_sel (firstItemLink D));
          href = or_empty (attr_sel (firstItemLink D) (js ''href''));
          code = match_code href;
          (name2, code2) =
            (if no_code code then
               (case match_code (or_else (html D) []) of
                  Some c \<Rightarrow> (or_else (titleName D) query, Some c)
                | None \<Rightarrow> (name, code))
             else (name, code))
      in if no_code code2 then
           \<lparr>search_url = u, result = None, message = Some not_found_message\<rparr>
         else
           \<lparr>search_url = u,
            result = Some \<lparr>found_name = or_else name2 query, found_code = or_empty code2\<rparr>,
            message = None\<rparr>)"

definition search_url_of :: "jsstring \<Rightarrow> jsstring" where
  "search_url_of q = BASE @ js ''/search/search.naver?query='' @ q @ js ''&encoding=UTF-8''"

definition searchStockCodeByName :: "env \<Rightarrow> jsstring \<Rightarrow> error + search_output" where
  "searchStockCodeByName E query =
     (case encodeURIComponent E query of
        None \<Rightarrow> Inl URIError
      | Some q \<Rightarrow>
          (let u = search_url_of q
           in and_then (fetchHtml E u) (\<lambda>D. Inr (search_document u query D))))"

section \<open>The listing policies, in the words of the specification\<close>

text \<open>
  The first \<open>limit\<close> qualifying rows, in document order: a row qualifies when its name
  is not empty, and \<open>mk\<close> builds its record.
\<close>

definition first_rows ::
  "int \<Rightarrow> (elem \<Rightarrow> jsstring) \<Rightarrow> (elem \<Rightarrow> 'a) \<Rightarrow> elem list \<Rightarrow> 'a list" where
  "first_rows limit nm mk rows = take (nat limit) (map mk (filter (\<lambda>el. nm el \<noteq> []) rows))"

section \<open>Test fixtures\<close>

text \<open>
  A runtime for the concrete evaluations below. It prints the numbers the fixtures use
  as JavaScript does, from a table, and encodes a query as itself (the queries of the
  fixtures are plain letters); no text parses as JSON, and every request fails. The
  fixtures override the parts they need.
\<close>

definition printed :: "(jsnum \<times> jsstring) list" where
  "printed =
     [(Finite 0, js ''0''), (Finite 1, js ''1''), (Finite 7, js ''7''),
      (Finite 35120, js ''35120''), (Finite (-53 / 100), js ''-0.53'')]"

definition printed_fixed :: "(jsnum \<times> jsstring) list" where
  "printed_fixed =
     [(Finite 0, js ''0.00''), (Finite 1, js ''1.00''), (Finite 7, js ''7.00''),
      (Finite 35120, js ''35120.00''), (Finite (-53 / 100), js ''-0.53'')]"

definition env0 :: env where
  "env0 =
     \<lparr>JSON_parse = (\<lambda>_. None),
      Number_toString = (\<lambda>n. case map_of printed n of Some s \<Rightarrow> s | None \<Rightarrow> js ''NaN''),
      Number_toFixed = (\<lambda>n _. case map_of printed_fixed n of Some s \<Rightarrow> s | None \<Rightarrow> js ''NaN''),
      encodeURIComponent = Some,
      fetch = (\<lambda>_. Inl NetworkError),
      axios_get = (\<lambda>_. Inl NetworkError)\<rparr>"

text \<open>An element with a text, an optional \<open>href\<close> and the answers of \<open>find\<close>.\<close>

definition mk_elem :: "jsstring \<Rightarrow> jsstring option \<Rightarrow> (jsstring \<times> elem list) list \<Rightarrow> elem" where
  "mk_elem t h found =
     Elem t (\<lambda>k. if k = js ''href'' then h else None)
          (\<lambda>q. case map_of found q of None \<Rightarrow> [] | Some els \<Rightarrow> els)"

definition leaf :: "jsstring \<Rightarrow> elem" where
  "leaf t = mk_elem t None []"

text \<open>A document that answers the given selectors, served for every URL.\<close>

definition serving :: "(jsstring \<times> elem list) list \<Rightarrow> jsstring \<Rightarrow> env" where
  "serving found markup =
     env0\<lparr>fetch := (\<lambda>_. Inr \<lparr>ok = True, status = 200,
            document = \<lparr>select = (\<lambda>q. case map_of found q of None \<Rightarrow> [] | Some els \<Rightarrow> els),
                        html = markup\<rparr>\<rparr>)\<rparr>"

text \<open>
  A row of the dividend table: the name cell with its anchor, and five more cells.
\<close>

definition dividend_tr :: "jsstring \<Rightarrow> jsstring option \<Rightarrow> jsstring list \<Rightarrow> elem" where
  "dividend_tr nm h cells =
     mk_elem (nm @ concat cells) None
       [(js ''td.txt.frst a'', [mk_elem nm h []]),
        (js ''td'', leaf nm # map leaf cells)]"

definition comma_row :: elem where
  "comma_row =
     dividend_tr (js ''A'') (Some (js ''/item/main.naver?code=005930''))
       [js ''1,000'', js ''25.03'', js '','', js ''1.50'', js ''20.00'']"

text \<open>A row of the theme table and a row of the market-cap table.\<close>

definition theme_tr :: "jsstring \<Rightarrow> jsstring option \<Rightarrow> jsstring \<Rightarrow> jsstring list \<Rightarrow> elem" where
  "theme_tr nm h rate names =
     mk_elem (nm @ rate @ concat names) None
       [(js ''td.col_type1 a'', [mk_elem nm h []]),
        (js ''td.col_type2 span'', [leaf rate]),
        (js ''td'', [leaf nm, leaf rate,
                     mk_elem (concat names) None [(js ''a'', map leaf names)]])]"

definition market_tr :: "jsstring \<Rightarrow> jsstring option \<Rightarrow> jsstring \<Rightarrow> elem" where
  "market_tr nm h price =
     mk_elem (nm @ price) None
       [(js ''td:nth-child(2) a'', [mk_elem nm h []]),
        (js ''td:nth-child(3)'', [leaf price])]"

text \<open>
  Spacer rows: the name anchor holds only the ideographic space U+3000, or the row has
  no name anchor at all.
\<close>

definition blank_theme :: elem where
  "blank_theme = theme_tr [0x3000] None [] []"

definition blank_market :: elem where
  "blank_market = market_tr [0x3000] None []"

definition blank_dividend :: elem where
  "blank_dividend = dividend_tr [0x3000] None [[0xA0], [0xA0], [0xA0], [0xA0], [0xA0]]"

definition bare_row :: elem where
  "bare_row = mk_elem [0x3000] None [(js ''td'', [leaf [0x3000]])]"

definition theme_a :: elem where
  "theme_a = theme_tr (js ''AI'') (Some (js ''/sise/sise_group_detail.naver?type=theme&no=237''))
               (js ''+3.10%'') [js ''Alpha'', js ''Beta'']"

definition theme_b :: elem where
  "theme_b = theme_tr (js ''Bio'') None (js ''+1.00%'') []"

definition market_a :: elem where
  "market_a = market_tr (js ''A'') (Some (js ''/item/main.naver?code=005930'')) (js ''71,000'')"

definition market_b :: elem where
  "market_b = market_tr (js ''B'') (Some (js ''/item/main.naver?id=000660'')) (js ''N/A'')"

definition dividend_b :: elem where
  "dividend_b =
     dividend_tr (js ''B'') (Some (js ''/item/main.naver?id=000660''))
       [js ''2,500'', js ''24.12'', js ''100'', js ''4.00'', js ''-'']"

text \<open>The three tables of one page, each with a spacer row first and three named rows.\<close>

definition tables_env :: env where
  "tables_env =
     serving
       [(js ''table tbody tr'', [blank_theme, theme_a, bare_row, theme_b, theme_a]),
        (js ''table.type_2 tbody tr'', [blank_market, market_a, bare_row, market_b, market_a]),
        (js ''table.tb_ty tbody tr'', [blank_dividend, comma_row, bare_row, dividend_b, comma_row])]
       []"

text \<open>
  Responses of the fund API, with the values \<open>JSON.parse\<close> gives for them: a listing
  of three funds, a failure report whose status is \<open>false\<close>, a success report without
  a payload, a failure report with the status \<open>error\<close> and a list, a success report
  with an empty payload, and a failure report whose status is an object with an own
  property \<open>toString\<close>.
\<close>

definition etf_text :: jsstring where
  \<open>etf_text = js ''{"resultCode":"success","result":{"etfItemList":[{"itemcode":"069500","itemname":"K200","nowVal":35120,"changeRate":-0.53,"nav":"35,150"},{"itemname":"B","nowVal":"35120"},{"itemname":"C"}]}}''\<close>

definition etf_value :: json where
  "etf_value =
     JObj [(js ''resultCode'', JStr (js ''success'')),
           (js ''result'',
            JObj [(js ''etfItemList'',
                   JArr [JObj [(js ''itemcode'', JStr (js ''069500'')),
                               (js ''itemname'', JStr (js ''K200'')),
                               (js ''nowVal'', JNum (Finite 35120)),
                               (js ''changeRate'', JNum (Finite (-53 / 100))),
                               (js ''nav'', JStr (js ''35,150''))],
                         JObj [(js ''itemname'', JStr (js ''B'')),
                               (js ''nowVal'', JStr (js ''35120''))],
                         JObj [(js ''itemname'', JStr (js ''C''))]])])]"

definition failure_text :: jsstring where
  \<open>failure_text = js ''{"resultCode":false}''\<close>

definition failure_value :: json where
  "failure_value = JObj [(js ''resultCode'', JBool False)]"

definition bare_text :: jsstring where
  \<open>bare_text = js ''{"resultCode":"success"}''\<close>

definition bare_value :: json where
  "bare_value = JObj [(js ''resultCode'', JStr (js ''success''))]"

definition rejected_text :: jsstring where
  \<open>rejected_text = js ''{"resultCode":"error","result":{"etfItemList":[{"itemname":"A"}]}}''\<close>

definition rejected_value :: json where
  "rejected_value =
     JObj [(js ''resultCode'', JStr (js ''error'')),
           (js ''result'',
            JObj [(js ''etfItemList'', JArr [JObj [(js ''itemname'', JStr (js ''A''))]])])]"

definition empty_text :: jsstring where
  \<open>empty_text = js ''{"resultCode":"success","result":{}}''\<close>

definition empty_value :: json where
  "empty_value = JObj [(js ''resultCode'', JStr (js ''success'')), (js ''result'', JObj [])]"

definition textless_text :: jsstring where
  \<open>textless_text = js ''{"resultCode":{"toString":1}}''\<close>

definition textless_value :: json where
  "textless_value =
     JObj [(js ''resultCode'', JObj [(js ''toString'', JNum (Finite 1))])]"

definition parsed :: "(jsstring \<times> json) list" where
  "parsed =
     [(etf_text, etf_value), (failure_text, failure_value), (bare_text, bare_value),
      (rejected_text, rejected_value), (empty_text, empty_value),
      (textless_text, textless_value)]"

text \<open>The API answers every request with the given body.\<close>

definition answering :: "jsstring \<Rightarrow> env" where
  "answering body = env0\<lparr>JSON_parse := map_of parsed, axios_get := (\<lambda>_. Inr body)\<rparr>"

text \<open>
  Search pages: one with a detail link after a link without target, one with a code
  only in its markup and a title, one with a code only in its markup, one without a code.
\<close>

definition anchor_page :: "(jsstring \<times> elem list) list" where
  "anchor_page =
     [(js ''a'', [mk_elem (js ''Home'') None [],
                  mk_elem (js '' Samsung '') (Some (js ''/item/main.naver?code=005930'')) [],
                  mk_elem (js ''Other'') (Some (js ''/item/main.naver?code=000660'')) []])]"

definition title_page :: "(jsstring \<times> elem list) list" where
  "title_page = [(js ''div.wrap_company h2'', [leaf (js '' SK hynix '')])]"

definition markup :: jsstring where
  "markup = js ''<script>location.href='/item/main.naver?code=000660'</script>''"

section \<open>Lemmas about the library functions and the loops\<close>

lemmas fixture_defs = env0_def printed_def printed_fixed_def serving_def mk_elem_def leaf_def
  dividend_tr_def theme_tr_def market_tr_def comma_row_def blank_theme_def blank_market_def
  blank_dividend_def bare_row_def theme_a_def theme_b_def market_a_def market_b_def
  dividend_b_def tables_env_def answering_def parsed_def etf_text_def etf_value_def
  failure_text_def failure_value_def bare_text_def bare_value_def rejected_text_def
  rejected_value_def empty_text_def empty_value_def anchor_page_def title_page_def markup_def

lemmas string_defs = js_def trim_def is_space_def is_digit_def BASE_def

lemmas number_defs = parseKoreanNumber_def Number_def non_decimal_def unsigned_decimal_def
  exponent_part_def digits_val_def digit_val_def is_digit_in_def isNaN_def negate_def pow10_def

lemmas selection_defs = first_sel_def last_sel_def eq_sel_def text_sel_def attr_sel_def
  find_sel_def or_empty_def

lemmas table_defs = fetchHtml_def and_then_def go_on_def measured_text_def
  getThemesWithLeaders_def theme_url_def theme_row_def theme_name_def theme_record_def
  getMarketCapStocks_def market_url_def market_row_def market_name_def market_record_def
  getDividendYieldStocks_def dividend_url_def dividend_row_def dividend_name_def
  dividend_record_def

lemmas etf_defs = getEtfsByMarketCap_def etf_api_url_def etf_from_body_def
  extract_json_text_def slice_js_def etf_listing_def etfItemList_def etf_record_def
  measured_field_def raw_text_def number_or_null_def rate_text_def code_or_unknown_def
  opt_field_def or_default_def get_prop_def field_def truthy_def nullish_def and_then_def

lemma each_rows:
  assumes f: "\<And>its el. f its el =
     (if nm el = [] then (its, True) else (its @ [mk el], go_on (its @ [mk el]) limit))"
  shows "each f rows acc =
     acc @ take (nat (max 1 (limit - int (length acc)))) (map mk (filter (\<lambda>el. nm el \<noteq> []) rows))"
proof (induction rows arbitrary: acc)
  case Nil
  show ?case by simp
next
  case (Cons el rows)
  show ?case
  proof (cases "nm el = []")
    case True
    then show ?thesis using Cons.IH [of acc] by (simp add: f)
  next
    case False
    show ?thesis
    proof (cases "go_on (acc @ [mk el]) limit")
      case True
      then have lt: "int (length acc) + 1 < limit" by (simp add: go_on_def)
      then have n: "nat (max 1 (limit - int (length acc))) =
          Suc (nat (max 1 (limit - int (length (acc @ [mk el])))))" by simp
      have "each f (el # rows) acc = each f rows (acc @ [mk el])"
        using False True by (simp add: f)
      also have "\<dots> = (acc @ [mk el]) @ take (nat (max 1 (limit - int (length (acc @ [mk el])))))
          (map mk (filter (\<lambda>el. nm el \<noteq> []) rows))"
        by (rule Cons.IH)
      also have "\<dots> = acc @ take (nat (max 1 (limit - int (length acc))))
          (map mk (filter (\<lambda>el. nm el \<noteq> []) (el # rows)))"
        unfolding n using False by simp
      finally show ?thesis .
    next
      case stop: False
      then have "limit - int (length acc) \<le> 1" by (simp add: go_on_def)
      then have n: "nat (max 1 (limit - int (length acc))) = Suc 0" by simp
      show ?thesis using False stop
        by (simp add: f n)
    qed
  qed
qed

lemma theme_loop:
  "each (theme_row limit) rows [] = first_rows (max 1 limit) theme_name theme_record rows"
  using each_rows [of "theme_row limit" theme_name theme_record limit rows "[]"]
  by (simp add: theme_row_def Let_def first_rows_def)

lemma market_loop:
  "each (market_row limit) rows [] = first_rows (max 1 limit) market_name market_record rows"
  using each_rows [of "market_row limit" market_name market_record limit rows "[]"]
  by (simp add: market_row_def Let_def first_rows_def)

lemma dividend_loop:
  "each (dividend_row limit) rows [] =
     first_rows (max 1 limit) dividend_name dividend_record rows"
  using each_rows [of "dividend_row limit" dividend_name dividend_record limit rows "[]"]
  by (simp add: dividend_row_def Let_def first_rows_def)

lemma first_rows_length: "length (first_rows limit nm mk rows) \<le> nat limit"
  by (simp add: first_rows_def)

lemma first_rows_skip:
  "nm r = [] \<Longrightarrow> first_rows limit nm mk (rows1 @ r # rows2) = first_rows limit nm mk (rows1 @ rows2)"
  by (simp add: first_rows_def)

lemma first_rows_subset: "set (first_rows limit nm mk rows) \<subseteq> mk ` set rows"
proof
  fix x
  assume "x \<in> set (first_rows limit nm mk rows)"
  then have "x \<in> set (map mk (filter (\<lambda>el. nm el \<noteq> []) rows))"
    unfolding first_rows_def by (rule in_set_takeD)
  then show "x \<in> mk ` set rows" by auto
qed

lemma map_err_Inr:
  "map_err f xs = Inr ys \<Longrightarrow> list_all2 (\<lambda>x y. f x = Inr y) xs ys"
proof (induction xs arbitrary: ys)
  case Nil
  then show ?case by simp
next
  case (Cons x xs)
  then show ?case
    by (auto simp: and_then_def split: sum.splits)
qed

lemma slice_js_take: "0 \<le> limit \<Longrightarrow> slice_js xs 0 limit = take (nat limit) xs"
  by (simp add: slice_js_def Let_def min_def)

lemma and_then_Inr: "and_then m f = Inr y \<longleftrightarrow> (\<exists>x. m = Inr x \<and> f x = Inr y)"
  by (cases m) (simp_all add: and_then_def)

lemma to_string_error:
  "to_string E v = Inl e \<Longrightarrow> e = TypeError"
  "join_elems E xs = Inl e \<Longrightarrow> e = TypeError"
  "elem_string E v = Inl e \<Longrightarrow> e = TypeError"
  by (induction E v and E xs and E v arbitrary: e and e and e
      rule: to_string_join_elems_elem_string.induct)
    (auto simp: and_then_def split: sum.splits if_splits)

lemma etf_listing_Inr:
  assumes "etf_listing E u limit json = Inr out" "0 \<le> limit"
  shows "\<exists>xs. etfItemList json = JArr xs \<and> url out = u \<and>
     list_all2 (\<lambda>etf it. etf_record E etf = Inr it) (take (nat limit) xs) (items out)"
proof -
  from assms(1) obtain rc where rc: "get_prop json (js ''resultCode'') = Inr rc"
    and body: "(if rc \<noteq> Some (JStr (js ''success'')) then
         and_then (code_or_unknown E rc) (\<lambda>c. Inl (ApiError c))
       else
         (case etfItemList json of
            JArr xs \<Rightarrow>
              and_then (map_err (etf_record E) (slice_js xs 0 limit)) (\<lambda>its.
                Inr \<lparr>url = u, items = its\<rparr>)
          | _ \<Rightarrow> Inl TypeError)) = Inr out"
    unfolding etf_listing_def and_then_Inr by blast
  have ok: "rc = Some (JStr (js ''success''))"
  proof (rule ccontr)
    assume "rc \<noteq> Some (JStr (js ''success''))"
    with body show False by (simp add: and_then_Inr)
  qed
  with body obtain xs where xs: "etfItemList json = JArr xs"
    and m: "and_then (map_err (etf_record E) (slice_js xs 0 limit)) (\<lambda>its.
                Inr \<lparr>url = u, items = its\<rparr>) = Inr out"
    by (cases "etfItemList json") simp_all
  from m obtain its where its: "map_err (etf_record E) (slice_js xs 0 limit) = Inr its"
    and out: "out = \<lparr>url = u, items = its\<rparr>"
    unfolding and_then_Inr by auto
  from its assms(2) have "list_all2 (\<lambda>etf it. etf_record E etf = Inr it) (take (nat limit) xs) its"
    by (simp add: slice_js_take map_err_Inr)
  with xs out show ?thesis by simp
qed

lemma getEtfs_Inr:
  assumes "getEtfsByMarketCap E limit ty col ord = Inr out"
  shows "\<exists>body jsonText json. axios_get E (etf_api_url E ty col ord) = Inr body \<and>
     extract_json_text (trim body) = Inr jsonText \<and> JSON_parse E jsonText = Some json \<and>
     etf_listing E (etf_api_url E ty col ord) limit json = Inr out"
  using assms
  by (auto simp: getEtfsByMarketCap_def etf_from_body_def Let_def and_then_Inr split: option.splits)

lemma starts_with_iff: "starts_with s p \<longleftrightarrow> (\<exists>r. s = p @ r)"
  by (induction s p rule: starts_with.induct) auto

lemma length_code_eq: "length (js ''code='') = 5"
  by (simp add: js_def)

lemma match_code_step:
  assumes "h \<noteq> []"
  shows "match_code h =
     (if starts_with h (js ''code='') \<and> 6 \<le> length (drop 5 h) \<and>
         list_all is_digit (take 6 (drop 5 h))
      then Some (take 6 (drop 5 h)) else match_code (tl h))"
proof (cases h)
  case Nil
  with assms show ?thesis by simp
next
  case (Cons x xs)
  show ?thesis unfolding Cons by (simp only: match_code.simps Let_def list.sel)
qed

lemma match_code_Some:
  "match_code h = Some c \<Longrightarrow>
     length c = 6 \<and> list_all is_digit c \<and> (\<exists>pre suf. h = pre @ js ''code='' @ c @ suf)"
proof (induction h)
  case Nil
  then show ?case by simp
next
  case (Cons x xs)
  define hh where "hh = x # xs"
  then have ne: "hh \<noteq> []" and tl: "tl hh = xs" by simp_all
  from Cons.prems have m: "match_code hh = Some c" by (simp only: hh_def)
  show ?case
  proof (cases "starts_with hh (js ''code='') \<and> 6 \<le> length (drop 5 hh) \<and>
      list_all is_digit (take 6 (drop 5 hh))")
    case True
    with m match_code_step [OF ne] have c: "c = take 6 (drop 5 hh)"
      by (auto split: if_splits)
    from True obtain r where r: "hh = js ''code='' @ r"
      unfolding starts_with_iff by blast
    then have "drop 5 hh = r" using length_code_eq by simp
    with c True have cr: "c = take 6 r" "6 \<le> length r" "list_all is_digit c" by simp_all
    then have "r = c @ drop 6 r" by simp
    with r have "hh = [] @ js ''code='' @ c @ drop 6 r" by simp
    moreover from cr have "length c = 6" by simp
    ultimately show ?thesis using cr(3) unfolding hh_def by blast
  next
    case False
    with m match_code_step [OF ne] tl have "match_code xs = Some c"
      by (auto split: if_splits)
    from Cons.IH [OF this] obtain pre suf where
      "length c = 6" "list_all is_digit c" "xs = pre @ js ''code='' @ c @ suf" by blast
    then have "x # xs = (x # pre) @ js ''code='' @ c @ suf" by simp
    with \<open>length c = 6\<close> \<open>list_all is_digit c\<close> show ?thesis by blast
  qed
qed

lemma match_code_found:
  assumes "length c = 6" "list_all is_digit c"
  shows "match_code (pre @ js ''code='' @ c @ suf) \<noteq> None"
proof (induction pre)
  case Nil
  define hh where "hh = js ''code='' @ c @ suf"
  have ne: "hh \<noteq> []" by (simp add: hh_def js_def)
  have s: "starts_with hh (js ''code='')"
    unfolding starts_with_iff hh_def by blast
  have d: "drop 5 hh = c @ suf"
    using length_code_eq by (simp add: hh_def)
  have "match_code hh = Some c"
    using match_code_step [OF ne] s assms by (simp add: d)
  then show ?case by (simp add: hh_def)
next
  case (Cons x pre)
  define hh where "hh = x # pre @ js ''code='' @ c @ suf"
  then have ne: "hh \<noteq> []" and tl: "tl hh = pre @ js ''code='' @ c @ suf" by simp_all
  have "match_code hh \<noteq> None"
    using match_code_step [OF ne] Cons.IH tl by (simp split: if_splits)
  then show ?case by (simp add: hh_def)
qed

lemma match_code_None_iff:
  "match_code h = None \<longleftrightarrow>
     \<not> (\<exists>pre c suf. h = pre @ js ''code='' @ c @ suf \<and> length c = 6 \<and> list_all is_digit c)"
proof
  assume "match_code h = None"
  then show "\<not> (\<exists>pre c suf. h = pre @ js ''code='' @ c @ suf \<and> length c = 6 \<and> list_all is_digit c)"
    using match_code_found by blast
next
  assume n: "\<not> (\<exists>pre c suf. h = pre @ js ''code='' @ c @ suf \<and> length c = 6 \<and> list_all is_digit c)"
  show "match_code h = None"
  proof (cases "match_code h")
    case None
    then show ?thesis .
  next
    case (Some c)
    from match_code_Some [OF this] n show ?thesis by blast
  qed
qed

lemma indexOf_range: "0 \<le> indexOf xs c \<or> indexOf xs c = -1"
  by (induction xs) (auto simp: Let_def)

lemma indexOf_absent: "indexOf xs c = -1 \<longleftrightarrow> c \<notin> set xs"
proof (induction xs)
  case Nil
  show ?case by simp
next
  case (Cons x xs)
  then show ?case using indexOf_range [of xs c] by (auto simp: Let_def)
qed

lemma indexOf_first: "c \<notin> set p \<Longrightarrow> indexOf (p @ c # r) c = int (length p)"
  by (induction p) (auto simp: Let_def)

lemma lastIndexOf_range: "0 \<le> lastIndexOf xs c \<or> lastIndexOf xs c = -1"
  by (induction xs) (auto simp: Let_def)

lemma lastIndexOf_absent: "lastIndexOf xs c = -1 \<longleftrightarrow> c \<notin> set xs"
proof (induction xs)
  case Nil
  show ?case by simp
next
  case (Cons x xs)
  then show ?case using lastIndexOf_range [of xs c] by (auto simp: Let_def)
qed

lemma lastIndexOf_last: "c \<notin> set s \<Longrightarrow> lastIndexOf (r @ c # s) c = int (length r)"
proof (induction r)
  case Nil
  then show ?case using lastIndexOf_absent [of s c] by (simp add: Let_def)
next
  case (Cons x r)
  then show ?case by (simp add: Let_def)
qed

lemma extract_absent:
  "extract_json_text d = Inl JsonNotFound \<longleftrightarrow> 0x7B \<notin> set d \<or> 0x7D \<notin> set d"
  by (simp add: extract_json_text_def Let_def indexOf_absent lastIndexOf_absent)

lemma extract_region:
  assumes "0x7B \<notin> set p" "0x7D \<notin> set s"
  shows "extract_json_text (p @ 0x7B # m @ 0x7D # s) = Inr (0x7B # m @ [0x7D])"
proof -
  have i: "indexOf (p @ 0x7B # m @ 0x7D # s) 0x7B = int (length p)"
    using assms(1) by (rule indexOf_first)
  have "lastIndexOf ((p @ 0x7B # m) @ 0x7D # s) 0x7D = int (length (p @ 0x7B # m))"
    using assms(2) by (rule lastIndexOf_last)
  then have j: "lastIndexOf (p @ 0x7B # m @ 0x7D # s) 0x7D = int (length p) + 1 + int (length m)"
    by simp
  have sl: "slice_js (p @ 0x7B # m @ 0x7D # s) (int (length p))
      (int (length p) + 1 + int (length m) + 1) = 0x7B # m @ [0x7D]"
  proof -
    have "nat (2 + int (length m)) = Suc (Suc (length m))" by simp
    then show ?thesis by (simp add: slice_js_def Let_def)
  qed
  have no: "int (length p) \<noteq> -1" "int (length p) + 1 + int (length m) \<noteq> -1" by simp_all
  show ?thesis
    unfolding extract_json_text_def Let_def i j using no sl by simp
qed

lemma trim_padded:
  assumes "\<not> is_space a" "\<not> is_space b"
  shows "trim (p @ a # m @ b # s) =
      dropWhile is_space p @ a # m @ b # rev (dropWhile is_space (rev s))"
proof -
  have 1: "dropWhile is_space (p @ a # m @ b # s) = dropWhile is_space p @ a # m @ b # s"
    using assms(1) by (induction p) auto
  have 2: "dropWhile is_space (rev s @ b # r) = dropWhile is_space (rev s) @ b # r" for r
    using assms(2) by (induction "rev s" arbitrary: s) (auto simp: dropWhile_append)
  have "rev (dropWhile is_space p @ a # m @ b # s) =
      rev s @ b # (rev m @ a # rev (dropWhile is_space p))"
    by simp
  then show ?thesis
    unfolding trim_def 1
    by (simp only: 2 rev_append rev.simps rev_rev_ident append_assoc append_Cons append_Nil)
qed

lemma braces_no_space: "\<not> is_space 0x7B" "\<not> is_space 0x7D"
  by (simp_all add: is_space_def)

lemma extract_padded:
  assumes "0x7B \<notin> set pre" "0x7D \<notin> set suf"
  shows "extract_json_text (trim (pre @ 0x7B # mid @ 0x7D # suf)) = Inr (0x7B # mid @ [0x7D])"
proof -
  have p: "0x7B \<notin> set (dropWhile is_space pre)"
    using assms(1) by (meson set_dropWhileD)
  have "0x7D \<notin> set (dropWhile is_space (rev suf))"
    using assms(2) by (metis set_dropWhileD set_rev)
  then have s: "0x7D \<notin> set (rev (dropWhile is_space (rev suf)))" by simp
  show ?thesis
    unfolding trim_padded [OF braces_no_space] by (rule extract_region [OF p s])
qed

section \<open>A measured value for a cell without a digit\<close>

text \<open>
  Claim C1. In every record, \<open>value\<close> is meant to be present only if \<open>raw\<close> is the text of
  a well-formed number once its separators are stripped. The table extractors take
  \<open>value\<close> from the normalizer, which returns \<open>0\<close> for a text of separators only: the
  dividend listing of a page whose one row has the dividend cell \<open>,\<close> returns the record
  with \<open>dividend = {raw: ",", value: 0}\<close>. The \<open>raw\<close> of both measured fields is the
  trimmed text of the cell.
\<close>

theorem dividend_comma_cell_has_value:
  "getDividendYieldStocks (serving [(js ''table.tb_ty tbody tr'', [comma_row])] []) (Finite 1) 50 =
     Inr \<lparr>url = BASE @ js ''/sise/dividend_list.naver?page=1'',
          items =
            [\<lparr>div_name = js ''A'', div_code = Some (js ''005930''),
              div_currentPrice = \<lparr>raw = js ''1,000'', val = Some (Finite 1000)\<rparr>,
              baseMonth = js ''25.03'',
              dividend = \<lparr>raw = js '','', val = Some (Finite 0)\<rparr>,
              dividendYield = js ''1.50'',
              payoutRatio = js ''20.00''\<rparr>],
          page = Finite 1\<rparr>"
  by (simp add: fixture_defs string_defs number_defs selection_defs table_defs Let_def)

section \<open>The numeric normalizer on a text of separators only\<close>

text \<open>
  Claim C2. The normalizer is meant to return no value for every empty and every
  non-numeric text. It tests the text for emptiness before it strips the separators
  (line 37), not after: the text \<open>,\<close> is stripped to the empty text, which
  \<open>Number\<close> converts to \<open>0\<close>, and the normalizer returns the number \<open>0\<close> for a text
  without a digit. The empty text itself and a text such as \<open>N/A\<close> give no value.
\<close>

theorem parseKoreanNumber_comma_is_zero:
  "parseKoreanNumber (js '','') = Some (Finite 0) \<and>
   parseKoreanNumber [] = None \<and>
   parseKoreanNumber (js ''N/A'') = None"
  by code_simp

section \<open>The JSON envelope\<close>

text \<open>
  Claim C3. From the trimmed response the fund listing takes the text from the first
  \<open>{\<close> to the last \<open>}\<close>, both included, and parses it; it fails with the error of line
  85 exactly when one of the two is missing. So a response that wraps an object text
  \<open>{\<dots>}\<close> in a prefix without \<open>{\<close> and a suffix without \<open>}\<close> gives what the
  object text alone gives: the call continues with the value \<open>JSON.parse\<close> has for the
  object text, or fails with its syntax error.
\<close>

theorem envelope_extraction:
  "(extract_json_text decoded = Inl JsonNotFound \<longleftrightarrow>
      0x7B \<notin> set decoded \<or> 0x7D \<notin> set decoded) \<and>
   (0x7B \<notin> set (trim body) \<or> 0x7D \<notin> set (trim body) \<longrightarrow>
      etf_from_body E u limit body = Inl JsonNotFound) \<and>
   (0x7B \<notin> set pre \<and> 0x7D \<notin> set suf \<longrightarrow>
      extract_json_text (pre @ 0x7B # mid @ 0x7D # suf) = Inr (0x7B # mid @ [0x7D]) \<and>
      etf_from_body E u limit (pre @ (0x7B # mid @ [0x7D]) @ suf) =
        (case JSON_parse E (0x7B # mid @ [0x7D]) of
           None \<Rightarrow> Inl SyntaxError
         | Some json \<Rightarrow> etf_listing E u limit json) \<and>
      etf_from_body E u limit (pre @ (0x7B # mid @ [0x7D]) @ suf) =
        etf_from_body E u limit (0x7B # mid @ [0x7D]) \<and>
      (axios_get E (etf_api_url E etfType targetColumn sortOrder) =
         Inr (pre @ (0x7B # mid @ [0x7D]) @ suf) \<longrightarrow>
       getEtfsByMarketCap E limit etfType targetColumn sortOrder =
         (case JSON_parse E (0x7B # mid @ [0x7D]) of
            None \<Rightarrow> Inl SyntaxError
          | Some json \<Rightarrow>
              etf_listing E (etf_api_url E etfType targetColumn sortOrder) limit json)))"
proof -
  have absent: "extract_json_text decoded = Inl JsonNotFound \<longleftrightarrow>
      0x7B \<notin> set decoded \<or> 0x7D \<notin> set decoded"
    by (rule extract_absent)
  have fails: "etf_from_body E u limit body = Inl JsonNotFound"
    if "0x7B \<notin> set (trim body) \<or> 0x7D \<notin> set (trim body)"
  proof -
    from that have "extract_json_text (trim body) = Inl JsonNotFound"
      by (simp only: extract_absent)
    then show ?thesis by (simp add: etf_from_body_def Let_def and_then_def)
  qed
  have parsed: "etf_from_body E u limit (p @ (0x7B # mid @ [0x7D]) @ s) =
        (case JSON_parse E (0x7B # mid @ [0x7D]) of
           None \<Rightarrow> Inl SyntaxError
         | Some json \<Rightarrow> etf_listing E u limit json)"
    if "0x7B \<notin> set p" "0x7D \<notin> set s" for p s u
  proof -
    have "extract_json_text (trim (p @ 0x7B # mid @ 0x7D # s)) = Inr (0x7B # mid @ [0x7D])"
      using that by (rule extract_padded)
    then show ?thesis by (simp add: etf_from_body_def Let_def and_then_def)
  qed
  have alone: "etf_from_body E u limit (0x7B # mid @ [0x7D]) =
        (case JSON_parse E (0x7B # mid @ [0x7D]) of
           None \<Rightarrow> Inl SyntaxError
         | Some json \<Rightarrow> etf_listing E u limit json)"
    using parsed [of "[]" "[]" u] by simp
  have whole: "getEtfsByMarketCap E limit etfType targetColumn sortOrder =
         (case JSON_parse E (0x7B # mid @ [0x7D]) of
            None \<Rightarrow> Inl SyntaxError
          | Some json \<Rightarrow>
              etf_listing E (etf_api_url E etfType targetColumn sortOrder) limit json)"
    if "0x7B \<notin> set pre" "0x7D \<notin> set suf"
      "axios_get E (etf_api_url E etfType targetColumn sortOrder) =
         Inr (pre @ (0x7B # mid @ [0x7D]) @ suf)"
    using that(3) parsed [OF that(1,2), of "etf_api_url E etfType targetColumn sortOrder"]
    by (simp add: getEtfsByMarketCap_def Let_def and_then_def)
  have region: "extract_json_text (pre @ 0x7B # mid @ 0x7D # suf) = Inr (0x7B # mid @ [0x7D])"
    if "0x7B \<notin> set pre" "0x7D \<notin> set suf"
    using that by (rule extract_region)
  from absent fails parsed [of pre suf u] alone region whole show ?thesis by simp
qed

text \<open>
  The success report without a payload, alone and wrapped in the call of a callback; and
  a response without an object.
\<close>

theorem envelope_extraction_witness:
  "0x7B \<notin> set (js '' cb('') \<and> 0x7D \<notin> set (js ''); '') \<and>
   bare_text = 0x7B # js ''\"resultCode\":\"success\"'' @ [0x7D] \<and>
   extract_json_text (js '' cb('' @ bare_text @ js ''); '') = Inr bare_text \<and>
   etf_from_body (answering []) (js ''u'') 2 (js '' cb('' @ bare_text @ js ''); '') =
     etf_from_body (answering []) (js ''u'') 2 bare_text \<and>
   etf_from_body (answering []) (js ''u'') 2 bare_text = Inr \<lparr>url = js ''u'', items = []\<rparr> \<and>
   getEtfsByMarketCap (answering (js '' cb('' @ bare_text @ js ''); '')) 2 (Finite 0)
     (js ''acc_amount'') (js ''desc'') =
     Inr \<lparr>url = etf_api_url (answering (js '' cb('' @ bare_text @ js ''); '')) (Finite 0)
                  (js ''acc_amount'') (js ''desc''),
          items = []\<rparr> \<and>
   0x7B \<notin> set (trim (js '' cb(); '')) \<and>
   etf_from_body (answering []) (js ''u'') 2 (js '' cb(); '') = Inl JsonNotFound"
proof -
  define mid where "mid = js ''\"resultCode\":\"success\"''"
  have pre: "0x7B \<notin> set (js '' cb('')" and suf: "0x7D \<notin> set (js ''); '')"
    by (simp_all add: js_def)
  have shape: "bare_text = 0x7B # mid @ [0x7D]"
    by (simp add: bare_text_def mid_def js_def)
  have wrapped: "js '' cb('' @ bare_text @ js ''); '' = js '' cb('' @ 0x7B # mid @ 0x7D # js ''); ''"
    by (simp add: shape)
  note inst = envelope_extraction [where pre = "js '' cb(''" and suf = "js ''); ''"
      and mid = mid and E = "answering []" and u = "js ''u''"
      and limit = 2 and body = "js '' cb(); ''"]
  have none: "0x7B \<notin> set (trim (js '' cb(); ''))"
    by (simp add: string_defs)
  have fails: "etf_from_body (answering []) (js ''u'') 2 (js '' cb(); '') = Inl JsonNotFound"
    using inst [THEN conjunct2, THEN conjunct1] none by blast
  from inst [THEN conjunct2, THEN conjunct2] pre suf
  have region: "extract_json_text (js '' cb('' @ 0x7B # mid @ 0x7D # js ''); '') =
      Inr (0x7B # mid @ [0x7D])"
    and same: "etf_from_body (answering []) (js ''u'') 2
        (js '' cb('' @ (0x7B # mid @ [0x7D]) @ js ''); '') =
      etf_from_body (answering []) (js ''u'') 2 (0x7B # mid @ [0x7D])"
    by blast+
  have alone: "etf_from_body (answering []) (js ''u'') 2 bare_text = Inr \<lparr>url = js ''u'', items = []\<rparr>"
    by (simp add: etf_defs fixture_defs string_defs Let_def)
  define W where "W = answering (js '' cb('' @ bare_text @ js ''); '')"
  have top: "getEtfsByMarketCap W 2 (Finite 0) (js ''acc_amount'') (js ''desc'') =
      Inr \<lparr>url = etf_api_url W (Finite 0) (js ''acc_amount'') (js ''desc''), items = []\<rparr>"
  proof -
    note w = envelope_extraction [THEN conjunct2, THEN conjunct2, rule_format,
        THEN conjunct2, THEN conjunct2, THEN conjunct2, rule_format]
    have body: "axios_get W (etf_api_url W (Finite 0) (js ''acc_amount'') (js ''desc'')) =
        Inr (js '' cb('' @ (0x7B # mid @ [0x7D]) @ js ''); '')"
      by (simp add: W_def answering_def shape)
    have pa: "JSON_parse W (0x7B # mid @ [0x7D]) = Some bare_value"
      unfolding shape [symmetric]
      by (simp add: W_def answering_def env0_def parsed_def etf_text_def failure_text_def
          bare_text_def js_def)
    have li: "etf_listing W v 2 bare_value = Inr \<lparr>url = v, items = []\<rparr>" for v
      by (simp add: etf_defs bare_value_def js_def)
    from w [OF _ body, of 2] pre suf show ?thesis
      by (simp add: pa li)
  qed
  from region have r: "extract_json_text (js '' cb('' @ bare_text @ js ''); '') = Inr bare_text"
    unfolding wrapped unfolding shape .
  from same have s: "etf_from_body (answering []) (js ''u'') 2 (js '' cb('' @ bare_text @ js ''); '') =
     etf_from_body (answering []) (js ''u'') 2 bare_text"
    by (simp only: shape)
  from shape have sh: "bare_text = 0x7B # js ''\"resultCode\":\"success\"'' @ [0x7D]"
    by (simp only: mid_def)
  from pre suf sh r s alone top [unfolded W_def] none fails show ?thesis by blast
qed

section \<open>A status other than success\<close>

text \<open>
  Claim C4, as stated, fails for a status that is falsy: for the response
  \<open>{"resultCode":false}\<close> the call fails with the text \<open>unknown\<close> (line 92 puts
  \<open>unknown\<close> in the place of a falsy status), not with the provider's code \<open>false\<close>.
  It also fails for a status that has no text: for \<open>{"resultCode":{"toString":1}}\<close>
  the template literal of line 92 throws a \<open>TypeError\<close>, which carries no code.
\<close>

theorem falsy_status_counterexample:
  "JSON_parse (answering (js ''cb('' @ failure_text @ js '');'')) failure_text =
     Some failure_value \<and>
   field failure_value (js ''resultCode'') = Some (JBool False) \<and>
   to_string (answering (js ''cb('' @ failure_text @ js '');'')) (JBool False) =
     Inr (js ''false'') \<and>
   getEtfsByMarketCap (answering (js ''cb('' @ failure_text @ js '');'')) 2 (Finite 0)
     (js ''acc_amount'') (js ''desc'') = Inl (ApiError (js ''unknown'')) \<and>
   js ''unknown'' \<noteq> js ''false'' \<and>
   JSON_parse (answering (js ''cb('' @ textless_text @ js '');'')) textless_text =
     Some textless_value \<and>
   field textless_value (js ''resultCode'') = Some (JObj [(js ''toString'', JNum (Finite 1))]) \<and>
   truthy (Some (JObj [(js ''toString'', JNum (Finite 1))])) \<and>
   getEtfsByMarketCap (answering (js ''cb('' @ textless_text @ js '');'')) 2 (Finite 0)
     (js ''acc_amount'') (js ''desc'') = Inl TypeError"
  by (simp add: etf_defs fixture_defs textless_text_def textless_value_def string_defs Let_def)

text \<open>
  Claim C4, amended. When the status of the parsed envelope is not the text \<open>success\<close>,
  the call fails and returns no items, whatever the payload holds. When the status is
  truthy and \<open>String(status)\<close> gives a text, the error of line 92 carries that text: it
  does for every string, number and boolean, and for an object without an own property
  \<open>toString\<close> (the text \<open>[object Object]\<close>). When the status is truthy and has no
  text (an object with an own property \<open>toString\<close>, alone or as an element of an
  array), the call fails with the \<open>TypeError\<close> of the conversion. When the status is
  missing or falsy, the error carries \<open>unknown\<close>.
\<close>

theorem failure_status_fails:
  assumes "field json (js ''resultCode'') \<noteq> Some (JStr (js ''success''))"
  shows
    "(\<exists>e. etf_listing E u limit json = Inl e) \<and>
     (\<forall>c s. field json (js ''resultCode'') = Some c \<and> truthy (Some c) \<and>
            to_string E c = Inr s \<longrightarrow>
        etf_listing E u limit json = Inl (ApiError s)) \<and>
     (json \<noteq> JNull \<and> \<not> truthy (field json (js ''resultCode'')) \<longrightarrow>
        etf_listing E u limit json = Inl (ApiError (js ''unknown''))) \<and>
     (\<forall>body jsonText.
        axios_get E (etf_api_url E etfType targetColumn sortOrder) = Inr body \<and>
        extract_json_text (trim body) = Inr jsonText \<and>
        JSON_parse E jsonText = Some json \<longrightarrow>
        (\<exists>e. getEtfsByMarketCap E limit etfType targetColumn sortOrder = Inl e \<and>
             etf_listing E (etf_api_url E etfType targetColumn sortOrder) limit json = Inl e)) \<and>
     (\<forall>c. field json (js ''resultCode'') = Some c \<and> truthy (Some c) \<longrightarrow>
        etf_listing E u limit json =
          (case to_string E c of Inr s \<Rightarrow> Inl (ApiError s) | Inl e \<Rightarrow> Inl TypeError)) \<and>
     (\<forall>c e. to_string E c = Inl e \<longrightarrow> e = TypeError) \<and>
     (\<forall>s. field json (js ''resultCode'') = Some (JStr s) \<and> s \<noteq> [] \<longrightarrow>
        etf_listing E u limit json = Inl (ApiError s)) \<and>
     (\<forall>n. field json (js ''resultCode'') = Some (JNum n) \<and> n \<noteq> NaN \<and> n \<noteq> Finite 0 \<longrightarrow>
        etf_listing E u limit json = Inl (ApiError (Number_toString E n))) \<and>
     (field json (js ''resultCode'') = Some (JBool True) \<longrightarrow>
        etf_listing E u limit json = Inl (ApiError (js ''true''))) \<and>
     (\<forall>kvs. field json (js ''resultCode'') = Some (JObj kvs) \<longrightarrow>
        etf_listing E u limit json =
          (if map_of kvs (js ''toString'') = None then Inl (ApiError (js ''[object Object]''))
           else Inl TypeError)) \<and>
     (json = JNull \<longrightarrow> etf_listing E u limit json = Inl TypeError)"
proof -
  have fails: "\<exists>e. etf_listing E v limit json = Inl e" for v
  proof (cases "json = JNull")
    case True
    then show ?thesis by (simp add: etf_listing_def get_prop_def and_then_def)
  next
    case False
    show ?thesis
    proof (cases "code_or_unknown E (field json (js ''resultCode''))")
      case (Inl e)
      with False assms show ?thesis
        by (simp add: etf_listing_def get_prop_def and_then_def)
    next
      case (Inr c)
      with False assms show ?thesis
        by (simp add: etf_listing_def get_prop_def and_then_def)
    qed
  qed
  have carried: "etf_listing E u limit json = Inl (ApiError s)"
    if "field json (js ''resultCode'') = Some c \<and> truthy (Some c) \<and> to_string E c = Inr s"
    for c s
  proof -
    from that have "json \<noteq> JNull" by (auto simp: field_def)
    with that assms show ?thesis
      by (simp add: etf_listing_def get_prop_def and_then_def code_or_unknown_def)
  qed
  have unknown: "etf_listing E u limit json = Inl (ApiError (js ''unknown''))"
    if "json \<noteq> JNull \<and> \<not> truthy (field json (js ''resultCode''))"
  proof (cases "field json (js ''resultCode'')")
    case None
    with that assms show ?thesis
      by (simp add: etf_listing_def get_prop_def and_then_def code_or_unknown_def)
  next
    case (Some c)
    with that have "\<not> truthy (Some c)" by simp
    with Some that assms show ?thesis
      by (simp add: etf_listing_def get_prop_def and_then_def code_or_unknown_def)
  qed
  have whole: "\<exists>e. getEtfsByMarketCap E limit etfType targetColumn sortOrder = Inl e \<and>
             etf_listing E (etf_api_url E etfType targetColumn sortOrder) limit json = Inl e"
    if "axios_get E (etf_api_url E etfType targetColumn sortOrder) = Inr body \<and>
        extract_json_text (trim body) = Inr jsonText \<and>
        JSON_parse E jsonText = Some json" for body jsonText
    using that fails [of "etf_api_url E etfType targetColumn sortOrder"]
    by (auto simp: getEtfsByMarketCap_def etf_from_body_def Let_def and_then_def)
  have truthy_status: "etf_listing E u limit json =
          (case to_string E c of Inr s \<Rightarrow> Inl (ApiError s) | Inl e \<Rightarrow> Inl TypeError)"
    if "field json (js ''resultCode'') = Some c \<and> truthy (Some c)" for c
  proof -
    from that have nn: "json \<noteq> JNull" by (auto simp: field_def)
    show ?thesis
    proof (cases "to_string E c")
      case (Inl e)
      then have "e = TypeError" by (rule to_string_error)
      with Inl nn that assms show ?thesis
        by (simp add: etf_listing_def get_prop_def and_then_def code_or_unknown_def)
    next
      case (Inr s)
      with nn that assms show ?thesis
        by (simp add: etf_listing_def get_prop_def and_then_def code_or_unknown_def)
    qed
  qed
  have only_type_error: "\<forall>c e. to_string E c = Inl e \<longrightarrow> e = TypeError"
    using to_string_error(1) by blast
  have str: "etf_listing E u limit json = Inl (ApiError s)"
    if "field json (js ''resultCode'') = Some (JStr s) \<and> s \<noteq> []" for s
    using truthy_status [of "JStr s"] that by (simp add: truthy_def)
  have num: "etf_listing E u limit json = Inl (ApiError (Number_toString E n))"
    if "field json (js ''resultCode'') = Some (JNum n) \<and> n \<noteq> NaN \<and> n \<noteq> Finite 0" for n
    using truthy_status [of "JNum n"] that by (simp add: truthy_def)
  have bool: "etf_listing E u limit json = Inl (ApiError (js ''true''))"
    if "field json (js ''resultCode'') = Some (JBool True)"
    using truthy_status [of "JBool True"] that by (simp add: truthy_def)
  have obj: "etf_listing E u limit json =
          (if map_of kvs (js ''toString'') = None then Inl (ApiError (js ''[object Object]''))
           else Inl TypeError)"
    if "field json (js ''resultCode'') = Some (JObj kvs)" for kvs
    using truthy_status [of "JObj kvs"] that by (simp add: truthy_def)
  have null: "etf_listing E u limit json = Inl TypeError" if "json = JNull"
    using that by (simp add: etf_listing_def get_prop_def and_then_def)
  from fails [of u] carried unknown whole truthy_status only_type_error str num bool obj null
  show ?thesis by blast
qed

text \<open>
  The failure report with the status \<open>error\<close> and a list of one fund: the call fails
  with the text \<open>error\<close>. The failure report with the status \<open>false\<close>: the call fails
  with the text \<open>unknown\<close>. The failure report whose status is an object with an own
  property \<open>toString\<close>: the call fails with a \<open>TypeError\<close>.
\<close>

theorem failure_status_fails_witness:
  "field rejected_value (js ''resultCode'') \<noteq> Some (JStr (js ''success'')) \<and>
   etf_listing (answering []) (js ''u'') 2 rejected_value = Inl (ApiError (js ''error'')) \<and>
   getEtfsByMarketCap (answering (js ''cb('' @ rejected_text @ js '');'')) 2 (Finite 0)
     (js ''acc_amount'') (js ''desc'') = Inl (ApiError (js ''error'')) \<and>
   field failure_value (js ''resultCode'') \<noteq> Some (JStr (js ''success'')) \<and>
   etf_listing (answering []) (js ''u'') 2 failure_value = Inl (ApiError (js ''unknown'')) \<and>
   field textless_value (js ''resultCode'') \<noteq> Some (JStr (js ''success'')) \<and>
   truthy (field textless_value (js ''resultCode'')) \<and>
   etf_listing (answering []) (js ''u'') 2 textless_value = Inl TypeError"
proof -
  have x: "field textless_value (js ''resultCode'') =
      Some (JObj [(js ''toString'', JNum (Finite 1))])"
    by (simp add: field_def textless_value_def js_def)
  then have xn: "field textless_value (js ''resultCode'') \<noteq> Some (JStr (js ''success''))"
    by simp
  from x have xt: "truthy (field textless_value (js ''resultCode''))"
    by (simp add: truthy_def)
  have 4: "etf_listing (answering []) (js ''u'') 2 textless_value = Inl TypeError"
    using failure_status_fails [OF xn, of "answering []" "js ''u''" 2, THEN conjunct2,
        THEN conjunct2, THEN conjunct2, THEN conjunct2, THEN conjunct2, THEN conjunct2,
        THEN conjunct2, THEN conjunct2, THEN conjunct2, THEN conjunct1] x
    by (simp add: js_def)
  have r: "field rejected_value (js ''resultCode'') = Some (JStr (js ''error''))"
    by (simp add: field_def fixture_defs js_def)
  then have rn: "field rejected_value (js ''resultCode'') \<noteq> Some (JStr (js ''success''))"
    by (simp add: js_def)
  have f: "field failure_value (js ''resultCode'') = Some (JBool False)"
    by (simp add: field_def fixture_defs js_def)
  then have fn: "field failure_value (js ''resultCode'') \<noteq> Some (JStr (js ''success''))"
    by simp
  have 1: "etf_listing (answering []) (js ''u'') 2 rejected_value = Inl (ApiError (js ''error''))"
    using failure_status_fails [OF rn, of "answering []" "js ''u''" 2, THEN conjunct2,
        THEN conjunct1] r
    by (simp add: truthy_def js_def)
  have body: "axios_get (answering (js ''cb('' @ rejected_text @ js '');''))
       (etf_api_url (answering (js ''cb('' @ rejected_text @ js '');'')) (Finite 0)
         (js ''acc_amount'') (js ''desc'')) = Inr (js ''cb('' @ rejected_text @ js '');'')"
    by (simp add: answering_def env0_def)
  have ex: "extract_json_text (trim (js ''cb('' @ rejected_text @ js '');'')) = Inr rejected_text"
    by (simp add: extract_json_text_def slice_js_def rejected_text_def string_defs Let_def)
  have pa: "JSON_parse (answering (js ''cb('' @ rejected_text @ js '');'')) rejected_text =
      Some rejected_value"
    by (simp add: answering_def env0_def parsed_def etf_text_def failure_text_def bare_text_def
        rejected_text_def js_def)
  have l: "etf_listing (answering (js ''cb('' @ rejected_text @ js '');''))
      (etf_api_url (answering (js ''cb('' @ rejected_text @ js '');'')) (Finite 0)
         (js ''acc_amount'') (js ''desc'')) 2 rejected_value = Inl (ApiError (js ''error''))"
    using failure_status_fails [OF rn, THEN conjunct2, THEN conjunct1] r
    by (simp add: truthy_def js_def)
  have 2: "getEtfsByMarketCap (answering (js ''cb('' @ rejected_text @ js '');'')) 2 (Finite 0)
     (js ''acc_amount'') (js ''desc'') = Inl (ApiError (js ''error''))"
    using failure_status_fails [OF rn, of "answering (js ''cb('' @ rejected_text @ js '');'')"
        _ 2 "Finite 0" "js ''acc_amount''" "js ''desc''",
        THEN conjunct2, THEN conjunct2, THEN conjunct2] body ex pa l
    by fastforce
  have 3: "etf_listing (answering []) (js ''u'') 2 failure_value = Inl (ApiError (js ''unknown''))"
    using failure_status_fails [OF fn, of "answering []" "js ''u''" 2, THEN conjunct2,
        THEN conjunct2, THEN conjunct1] f
    by (simp add: truthy_def failure_value_def)
  from rn 1 2 fn 3 xn xt 4 show ?thesis by blast
qed

section \<open>The three stages of the name search\<close>

text \<open>
  Claim C5. The search of a loaded page goes through three stages. (1) The first anchor
  whose link target contains \<open>/item/main.naver?code=\<close> gives the name (its trimmed
  text, the query when that is empty) and, when \<open>code=(\d{6})\<close> matches its link
  target, the code. (2) Without a code from the first stage, the first match of the same
  pattern in the markup of the whole page gives the code, and the name is the page
  title, or the query when the page has no title. (3) Without a code from either stage
  the result is \<open>null\<close> with the message of line 327, which is not empty. A code that
  is returned has six digits, and the call returns whenever the query could be encoded
  and the page was fetched.
\<close>

theorem search_fallback_chain:
  "(\<forall>c. match_code (or_empty (attr_sel (firstItemLink D) (js ''href''))) = Some c \<longrightarrow>
      search_document u query D =
        \<lparr>search_url = u,
         result = Some \<lparr>found_name = or_else (trim (text_sel (firstItemLink D))) query,
                         found_code = c\<rparr>,
         message = None\<rparr>) \<and>
   (\<forall>c. match_code (or_empty (attr_sel (firstItemLink D) (js ''href''))) = None \<and>
        match_code (html D) = Some c \<longrightarrow>
      search_document u query D =
        \<lparr>search_url = u,
         result = Some \<lparr>found_name = or_else (titleName D) query, found_code = c\<rparr>,
         message = None\<rparr>) \<and>
   (match_code (or_empty (attr_sel (firstItemLink D) (js ''href''))) = None \<and>
    match_code (html D) = None \<longrightarrow>
      search_document u query D =
        \<lparr>search_url = u, result = None, message = Some not_found_message\<rparr>) \<and>
   not_found_message \<noteq> [] \<and>
   (\<forall>f. result (search_document u query D) = Some f \<longrightarrow>
      length (found_code f) = 6 \<and> list_all is_digit (found_code f)) \<and>
   (\<forall>a. firstItemLink D = [a] \<longleftrightarrow>
      (\<exists>before after. select D (js ''a'') = before @ a # after \<and> detail_link a \<and>
         (\<forall>x\<in>set before. \<not> detail_link x))) \<and>
   (firstItemLink D = [] \<longleftrightarrow> (\<forall>x\<in>set (select D (js ''a'')). \<not> detail_link x)) \<and>
   (\<forall>q D'. encodeURIComponent E query = Some q \<and> fetchHtml E (search_url_of q) = Inr D' \<longrightarrow>
      searchStockCodeByName E query = Inr (search_document (search_url_of q) query D'))"
proof -
  define h1 where "h1 = or_empty (attr_sel (firstItemLink D) (js ''href''))"
  have six: "c \<noteq> []" if "match_code h = Some c" for h c
    using match_code_Some [OF that] by auto
  have oe: "or_empty (Some c) = c" for c by (simp add: or_empty_def)
  have ob: "or_else x [] = x" for x by (simp add: or_else_def)
  have oo: "or_else (or_else x y) y = or_else x y" for x y by (simp add: or_else_def)
  have s1: "search_document u query D =
        \<lparr>search_url = u,
         result = Some \<lparr>found_name = or_else (trim (text_sel (firstItemLink D))) query,
                         found_code = c\<rparr>,
         message = None\<rparr>"
    if "match_code h1 = Some c" for c
    unfolding search_document_def Let_def h1_def [symmetric]
    using that six [OF that] by (simp add: no_code_def oe)
  have s2: "search_document u query D =
        \<lparr>search_url = u,
         result = Some \<lparr>found_name = or_else (titleName D) query, found_code = c\<rparr>,
         message = None\<rparr>"
    if "match_code h1 = None \<and> match_code (html D) = Some c" for c
    unfolding search_document_def Let_def h1_def [symmetric]
    using that six [of "html D" c] by (simp add: no_code_def oe ob oo)
  have s3: "search_document u query D =
        \<lparr>search_url = u, result = None, message = Some not_found_message\<rparr>"
    if "match_code h1 = None \<and> match_code (html D) = None"
    unfolding search_document_def Let_def h1_def [symmetric]
    using that by (simp add: no_code_def ob)
  have msg: "not_found_message \<noteq> []"
    by (simp add: not_found_message_def)
  have digits: "length (found_code f) = 6 \<and> list_all is_digit (found_code f)"
    if f: "result (search_document u query D) = Some f" for f
  proof (cases "match_code h1")
    case (Some c)
    from s1 [OF Some] f have "found_code f = c" by auto
    with match_code_Some [OF Some] show ?thesis by simp
  next
    case None
    show ?thesis
    proof (cases "match_code (html D)")
      case (Some c)
      from s2 [of c] None Some f have "found_code f = c" by auto
      with match_code_Some [OF Some] show ?thesis by simp
    next
      case n: None
      from s3 None n f show ?thesis by simp
    qed
  qed
  have first: "firstItemLink D = [a] \<longleftrightarrow>
      (\<exists>before after. select D (js ''a'') = before @ a # after \<and> detail_link a \<and>
         (\<forall>x\<in>set before. \<not> detail_link x))" for a
  proof -
    have "take 1 xs = [a] \<longleftrightarrow> (\<exists>ys. xs = a # ys)" for xs :: "elem list"
      by (cases xs) auto
    then show ?thesis
      unfolding firstItemLink_def first_sel_def by (simp only: filter_eq_Cons_iff) blast
  qed
  have nolink: "firstItemLink D = [] \<longleftrightarrow> (\<forall>x\<in>set (select D (js ''a'')). \<not> detail_link x)"
    by (simp add: firstItemLink_def first_sel_def filter_empty_conv)
  have call: "searchStockCodeByName E query = Inr (search_document (search_url_of q) query D')"
    if "encodeURIComponent E query = Some q \<and> fetchHtml E (search_url_of q) = Inr D'" for q D'
    using that by (simp add: searchStockCodeByName_def Let_def and_then_def)
  from s1 s2 s3 msg digits first nolink call show ?thesis
    unfolding h1_def by blast
qed

text \<open>
  Four pages. The first has a detail link with the text \<open>Samsung\<close> after a link without
  target: stage 1 answers. The second has no anchor, a code in its markup and a title:
  stage 2 answers with the title. The third has the code in its markup only: stage 2
  answers with the query. The fourth has no code at all: the search returns, with
  \<open>null\<close> and the message.
\<close>

theorem search_fallback_chain_witness:
  "searchStockCodeByName (serving anchor_page markup) (js ''samsung'') =
     Inr \<lparr>search_url = search_url_of (js ''samsung''),
          result = Some \<lparr>found_name = js ''Samsung'', found_code = js ''005930''\<rparr>,
          message = None\<rparr> \<and>
   searchStockCodeByName (serving title_page markup) (js ''hynix'') =
     Inr \<lparr>search_url = search_url_of (js ''hynix''),
          result = Some \<lparr>found_name = js ''SK hynix'', found_code = js ''000660''\<rparr>,
          message = None\<rparr> \<and>
   searchStockCodeByName (serving [] markup) (js ''hynix'') =
     Inr \<lparr>search_url = search_url_of (js ''hynix''),
          result = Some \<lparr>found_name = js ''hynix'', found_code = js ''000660''\<rparr>,
          message = None\<rparr> \<and>
   searchStockCodeByName (serving [] (js ''<html></html>'')) (js ''nothing'') =
     Inr \<lparr>search_url = search_url_of (js ''nothing''),
          result = None, message = Some not_found_message\<rparr>"
proof -
  have fetched: "fetchHtml (serving found m) v =
      Inr \<lparr>select = (\<lambda>q. case map_of found q of None \<Rightarrow> [] | Some els \<Rightarrow> els), html = m\<rparr>"
    for found m v
    by (simp add: fetchHtml_def serving_def env0_def and_then_def)
  have enc: "encodeURIComponent (serving found m) q = Some q" for found m q
    by (simp add: serving_def env0_def)
  define DA where "DA = \<lparr>select = (\<lambda>q. case map_of anchor_page q of None \<Rightarrow> [] | Some els \<Rightarrow> els),
      html = markup\<rparr>"
  define DT where "DT = \<lparr>select = (\<lambda>q. case map_of title_page q of None \<Rightarrow> [] | Some els \<Rightarrow> els),
      html = markup\<rparr>"
  define DM where "DM = \<lparr>select = (\<lambda>q. case map_of ([] :: (jsstring \<times> elem list) list) q of
      None \<Rightarrow> [] | Some els \<Rightarrow> els), html = markup\<rparr>"
  define DN where "DN = \<lparr>select = (\<lambda>q. case map_of ([] :: (jsstring \<times> elem list) list) q of
      None \<Rightarrow> [] | Some els \<Rightarrow> els), html = js ''<html></html>''\<rparr>"
  have mk: "match_code markup = Some (js ''000660'')"
    by (simp add: markup_def js_def is_digit_def)
  have mn: "match_code (js ''<html></html>'') = None"
    by (simp add: js_def is_digit_def)
  have la: "firstItemLink DA =
      [mk_elem (js '' Samsung '') (Some (js ''/item/main.naver?code=005930'')) []]"
    by (simp add: DA_def firstItemLink_def detail_link_def first_sel_def attr_sel_def
        or_empty_def anchor_page_def mk_elem_def js_def)
  note stage1 = search_fallback_chain [THEN conjunct1, rule_format]
  note stage2 = search_fallback_chain [THEN conjunct2, THEN conjunct1, rule_format]
  note stage3 = search_fallback_chain [THEN conjunct2, THEN conjunct2, THEN conjunct1, rule_format]
  have markups: "html DT = markup" "html DM = markup" "html DN = js ''<html></html>''"
    by (simp_all add: DT_def DM_def DN_def)
  have ha: "match_code (or_empty (attr_sel (firstItemLink DA) (js ''href''))) =
      Some (js ''005930'')"
    by (simp add: la attr_sel_def or_empty_def mk_elem_def js_def is_digit_def)
  have na: "or_else (trim (text_sel (firstItemLink DA))) (js ''samsung'') = js ''Samsung''"
    by (simp add: la text_sel_def mk_elem_def or_else_def string_defs)
  have a: "search_document (search_url_of (js ''samsung'')) (js ''samsung'') DA =
      \<lparr>search_url = search_url_of (js ''samsung''),
       result = Some \<lparr>found_name = js ''Samsung'', found_code = js ''005930''\<rparr>,
       message = None\<rparr>"
    using stage1 [OF ha, of "search_url_of (js ''samsung'')" "js ''samsung''"]
    by (simp only: na)
  have lt: "firstItemLink DT = []" "firstItemLink DM = []" "firstItemLink DN = []"
    by (simp_all add: DT_def DM_def DN_def firstItemLink_def first_sel_def title_page_def js_def)
  have tn: "or_else (titleName DT) (js ''hynix'') = js ''SK hynix''"
    by (simp add: DT_def titleName_def title_page_def first_sel_def text_sel_def leaf_def
        mk_elem_def or_else_def string_defs)
  have tm: "or_else (titleName DM) (js ''hynix'') = js ''hynix''"
    by (simp add: DM_def titleName_def first_sel_def text_sel_def or_else_def trim_def)
  have none: "match_code (or_empty (attr_sel [] (js ''href''))) = None"
    by (simp add: attr_sel_def or_empty_def)
  have ht: "match_code (or_empty (attr_sel (firstItemLink DT) (js ''href''))) = None \<and>
      match_code (html DT) = Some (js ''000660'')"
    using none mk by (simp only: lt markups)
  have hm: "match_code (or_empty (attr_sel (firstItemLink DM) (js ''href''))) = None \<and>
      match_code (html DM) = Some (js ''000660'')"
    using none mk by (simp only: lt markups)
  have hn: "match_code (or_empty (attr_sel (firstItemLink DN) (js ''href''))) = None \<and>
      match_code (html DN) = None"
    using none mn by (simp only: lt markups)
  have t: "search_document (search_url_of (js ''hynix'')) (js ''hynix'') DT =
      \<lparr>search_url = search_url_of (js ''hynix''),
       result = Some \<lparr>found_name = js ''SK hynix'', found_code = js ''000660''\<rparr>,
       message = None\<rparr>"
    using stage2 [OF ht, of "search_url_of (js ''hynix'')" "js ''hynix''"]
    by (simp only: tn)
  have m: "search_document (search_url_of (js ''hynix'')) (js ''hynix'') DM =
      \<lparr>search_url = search_url_of (js ''hynix''),
       result = Some \<lparr>found_name = js ''hynix'', found_code = js ''000660''\<rparr>,
       message = None\<rparr>"
    using stage2 [OF hm, of "search_url_of (js ''hynix'')" "js ''hynix''"]
    by (simp only: tm)
  have n: "search_document (search_url_of (js ''nothing'')) (js ''nothing'') DN =
      \<lparr>search_url = search_url_of (js ''nothing''), result = None,
       message = Some not_found_message\<rparr>"
    by (rule stage3 [OF hn])
  note call = search_fallback_chain [THEN conjunct2, THEN conjunct2, THEN conjunct2,
      THEN conjunct2, THEN conjunct2, THEN conjunct2, THEN conjunct2, rule_format]
  have ca: "searchStockCodeByName (serving anchor_page markup) (js ''samsung'') =
      Inr (search_document (search_url_of (js ''samsung'')) (js ''samsung'') DA)"
    by (rule call) (simp add: enc fetched DA_def)
  have ct: "searchStockCodeByName (serving title_page markup) (js ''hynix'') =
      Inr (search_document (search_url_of (js ''hynix'')) (js ''hynix'') DT)"
    by (rule call) (simp add: enc fetched DT_def)
  have cm: "searchStockCodeByName (serving [] markup) (js ''hynix'') =
      Inr (search_document (search_url_of (js ''hynix'')) (js ''hynix'') DM)"
    by (rule call) (simp add: enc fetched DM_def)
  have cn: "searchStockCodeByName (serving [] (js ''<html></html>'')) (js ''nothing'') =
      Inr (search_document (search_url_of (js ''nothing'')) (js ''nothing'') DN)"
    by (rule call) (simp add: enc fetched DN_def)
  show ?thesis unfolding ca ct cm cn a t m n by simp
qed

section \<open>Truncation and order of the listings\<close>

text \<open>
  Claim C6. For a positive \<open>limit\<close> (the tool layer admits no other), every listing
  returns at most \<open>limit\<close> items: the three table listings return the records of the
  first \<open>limit\<close> rows with a name, in the order of the document, and the fund listing
  returns the records of the first \<open>limit\<close> entries of the provider's list, in its order.
\<close>

theorem listing_truncation:
  assumes "0 < limit"
  shows
    "getThemesWithLeaders E limit =
       and_then (fetchHtml E theme_url) (\<lambda>D.
         Inr \<lparr>url = theme_url,
              items = first_rows limit theme_name theme_record
                        (select D (js ''table tbody tr''))\<rparr>) \<and>
     getMarketCapStocks E sosok_arg page_arg limit =
       and_then (fetchHtml E (market_url E sosok_arg page_arg)) (\<lambda>D.
         Inr \<lparr>url = market_url E sosok_arg page_arg,
              items = first_rows limit market_name market_record
                        (select D (js ''table.type_2 tbody tr'')),
              page = page_arg, sosok = sosok_arg\<rparr>) \<and>
     getDividendYieldStocks E page_arg limit =
       and_then (fetchHtml E (dividend_url E page_arg)) (\<lambda>D.
         Inr \<lparr>url = dividend_url E page_arg,
              items = first_rows limit dividend_name dividend_record
                        (select D (js ''table.tb_ty tbody tr'')),
              page = page_arg\<rparr>) \<and>
     length (first_rows limit nm mk rows) \<le> nat limit \<and>
     (\<forall>out. getEtfsByMarketCap E limit etfType targetColumn sortOrder = Inr out \<longrightarrow>
        length (items out) \<le> nat limit \<and>
        (\<exists>body jsonText json xs.
           axios_get E (etf_api_url E etfType targetColumn sortOrder) = Inr body \<and>
           extract_json_text (trim body) = Inr jsonText \<and>
           JSON_parse E jsonText = Some json \<and>
           etfItemList json = JArr xs \<and>
           list_all2 (\<lambda>etf it. etf_record E etf = Inr it) (take (nat limit) xs) (items out)))"
proof -
  from assms have m: "max 1 limit = limit" by simp
  have themes: "getThemesWithLeaders E limit =
       and_then (fetchHtml E theme_url) (\<lambda>D.
         Inr \<lparr>url = theme_url,
              items = first_rows limit theme_name theme_record
                        (select D (js ''table tbody tr''))\<rparr>)"
    by (simp add: getThemesWithLeaders_def Let_def theme_loop m)
  have market: "getMarketCapStocks E sosok_arg page_arg limit =
       and_then (fetchHtml E (market_url E sosok_arg page_arg)) (\<lambda>D.
         Inr \<lparr>url = market_url E sosok_arg page_arg,
              items = first_rows limit market_name market_record
                        (select D (js ''table.type_2 tbody tr'')),
              page = page_arg, sosok = sosok_arg\<rparr>)"
    by (simp add: getMarketCapStocks_def Let_def market_loop m)
  have dividend: "getDividendYieldStocks E page_arg limit =
       and_then (fetchHtml E (dividend_url E page_arg)) (\<lambda>D.
         Inr \<lparr>url = dividend_url E page_arg,
              items = first_rows limit dividend_name dividend_record
                        (select D (js ''table.tb_ty tbody tr'')),
              page = page_arg\<rparr>)"
    by (simp add: getDividendYieldStocks_def Let_def dividend_loop m)
  have len: "length (first_rows limit nm mk rows) \<le> nat limit"
    by (rule first_rows_length)
  have etf: "length (items out) \<le> nat limit \<and>
        (\<exists>body jsonText json xs.
           axios_get E (etf_api_url E etfType targetColumn sortOrder) = Inr body \<and>
           extract_json_text (trim body) = Inr jsonText \<and>
           JSON_parse E jsonText = Some json \<and>
           etfItemList json = JArr xs \<and>
           list_all2 (\<lambda>etf it. etf_record E etf = Inr it) (take (nat limit) xs) (items out))"
    if "getEtfsByMarketCap E limit etfType targetColumn sortOrder = Inr out" for out
  proof -
    from getEtfs_Inr [OF that] obtain body jsonText json where
      b: "axios_get E (etf_api_url E etfType targetColumn sortOrder) = Inr body"
        "extract_json_text (trim body) = Inr jsonText" "JSON_parse E jsonText = Some json"
      and l: "etf_listing E (etf_api_url E etfType targetColumn sortOrder) limit json = Inr out"
      by blast
    from assms have "0 \<le> limit" by simp
    from etf_listing_Inr [OF l this] obtain xs where
      xs: "etfItemList json = JArr xs"
        "list_all2 (\<lambda>etf it. etf_record E etf = Inr it) (take (nat limit) xs) (items out)"
      by blast
    from list_all2_lengthD [OF xs(2)] have "length (items out) = length (take (nat limit) xs)"
      by simp
    then have "length (items out) \<le> nat limit" by simp
    with b xs show ?thesis by blast
  qed
  from themes market dividend len etf show ?thesis by blast
qed

text \<open>
  With \<open>limit = 2\<close>, on a page whose tables have a spacer row and three named rows each,
  and on a fund list of three entries.
\<close>

theorem listing_truncation_witness:
  "(0::int) < 2 \<and>
   (\<exists>out. getThemesWithLeaders tables_env 2 = Inr out \<and>
      items out = first_rows 2 theme_name theme_record
                    [blank_theme, theme_a, bare_row, theme_b, theme_a] \<and>
      map themeName (items out) = [js ''AI'', js ''Bio'']) \<and>
   (\<exists>out. getMarketCapStocks tables_env (Finite 0) (Finite 1) 2 = Inr out \<and>
      items out = first_rows 2 market_name market_record
                    [blank_market, market_a, bare_row, market_b, market_a] \<and>
      map stock_name (items out) = [js ''A'', js ''B'']) \<and>
   (\<exists>out. getDividendYieldStocks tables_env (Finite 1) 2 = Inr out \<and>
      items out = first_rows 2 dividend_name dividend_record
                    [blank_dividend, comma_row, bare_row, dividend_b, comma_row] \<and>
      map div_name (items out) = [js ''A'', js ''B'']) \<and>
   (\<exists>out. getEtfsByMarketCap (answering (js ''cb('' @ etf_text @ js '');'')) 2 (Finite 0)
             (js ''acc_amount'') (js ''desc'') = Inr out \<and>
      length (items out) \<le> 2 \<and>
      map etf_name (items out) = [Some (JStr (js ''K200'')), Some (JStr (js ''B''))])"
proof -
  have pos: "(0::int) < 2" by simp
  note inst = listing_truncation [OF pos, of tables_env "Finite 0" "Finite 1"]
  have fetched: "fetchHtml tables_env u =
      Inr \<lparr>select = (\<lambda>q. case map_of
              [(js ''table tbody tr'', [blank_theme, theme_a, bare_row, theme_b, theme_a]),
               (js ''table.type_2 tbody tr'', [blank_market, market_a, bare_row, market_b, market_a]),
               (js ''table.tb_ty tbody tr'', [blank_dividend, comma_row, bare_row, dividend_b, comma_row])] q
              of None \<Rightarrow> [] | Some els \<Rightarrow> els), html = []\<rparr>" for u
    by (simp add: fetchHtml_def tables_env_def serving_def env0_def and_then_def)
  have sel: "js ''table tbody tr'' \<noteq> js ''table.type_2 tbody tr''"
    "js ''table tbody tr'' \<noteq> js ''table.tb_ty tbody tr''"
    "js ''table.type_2 tbody tr'' \<noteq> js ''table.tb_ty tbody tr''"
    by (simp_all add: js_def)
  have n1: "map themeName (first_rows 2 theme_name theme_record
                    [blank_theme, theme_a, bare_row, theme_b, theme_a]) = [js ''AI'', js ''Bio'']"
    by (simp add: first_rows_def fixture_defs string_defs selection_defs theme_name_def
        theme_record_def Let_def)
  have n2: "map stock_name (first_rows 2 market_name market_record
                    [blank_market, market_a, bare_row, market_b, market_a]) = [js ''A'', js ''B'']"
    by (simp add: first_rows_def fixture_defs string_defs selection_defs market_name_def
        market_record_def Let_def)
  have n3: "map div_name (first_rows 2 dividend_name dividend_record
                    [blank_dividend, comma_row, bare_row, dividend_b, comma_row]) = [js ''A'', js ''B'']"
    by (simp add: first_rows_def fixture_defs string_defs selection_defs dividend_name_def
        dividend_record_def Let_def)
  have t: "\<exists>out. getThemesWithLeaders tables_env 2 = Inr out \<and>
      items out = first_rows 2 theme_name theme_record
                    [blank_theme, theme_a, bare_row, theme_b, theme_a] \<and>
      map themeName (items out) = [js ''AI'', js ''Bio'']"
    using inst [THEN conjunct1] n1 by (simp add: fetched and_then_def)
  have m: "\<exists>out. getMarketCapStocks tables_env (Finite 0) (Finite 1) 2 = Inr out \<and>
      items out = first_rows 2 market_name market_record
                    [blank_market, market_a, bare_row, market_b, market_a] \<and>
      map stock_name (items out) = [js ''A'', js ''B'']"
    using inst [THEN conjunct2, THEN conjunct1] n2 sel by (simp add: fetched and_then_def)
  have d: "\<exists>out. getDividendYieldStocks tables_env (Finite 1) 2 = Inr out \<and>
      items out = first_rows 2 dividend_name dividend_record
                    [blank_dividend, comma_row, bare_row, dividend_b, comma_row] \<and>
      map div_name (items out) = [js ''A'', js ''B'']"
    using inst [THEN conjunct2, THEN conjunct2, THEN conjunct1] n3 sel
    by (simp add: fetched and_then_def)
  have ev: "getEtfsByMarketCap (answering (js ''cb('' @ etf_text @ js '');'')) 2 (Finite 0)
             (js ''acc_amount'') (js ''desc'') =
      Inr \<lparr>url = etf_api_url (answering (js ''cb('' @ etf_text @ js '');'')) (Finite 0)
                    (js ''acc_amount'') (js ''desc''),
           items = [\<lparr>etf_name = Some (JStr (js ''K200'')),
              etf_code = Some (JStr (js ''069500'')),
              etf_currentPrice = \<lparr>raw = js ''35120'', val = Some (Finite 35120)\<rparr>,
              etf_nav = \<lparr>raw = js ''35,150'', val = None\<rparr>,
              etf_changeRate = Some (js ''-0.53''),
              etf_threeMonthReturn = None,
              etf_volume = \<lparr>raw = [], val = None\<rparr>,
              etf_tradingValueMillion = \<lparr>raw = [], val = None\<rparr>,
              etf_marketCapHundredMillion = \<lparr>raw = [], val = None\<rparr>\<rparr>,
             \<lparr>etf_name = Some (JStr (js ''B'')), etf_code = None,
              etf_currentPrice = \<lparr>raw = js ''35120'', val = None\<rparr>,
              etf_nav = \<lparr>raw = [], val = None\<rparr>, etf_changeRate = None,
              etf_threeMonthReturn = None,
              etf_volume = \<lparr>raw = [], val = None\<rparr>,
              etf_tradingValueMillion = \<lparr>raw = [], val = None\<rparr>,
              etf_marketCapHundredMillion = \<lparr>raw = [], val = None\<rparr>\<rparr>]\<rparr>"
    by (simp add: etf_defs fixture_defs string_defs Let_def)
  have e: "\<exists>out. getEtfsByMarketCap (answering (js ''cb('' @ etf_text @ js '');'')) 2 (Finite 0)
             (js ''acc_amount'') (js ''desc'') = Inr out \<and>
      length (items out) \<le> 2 \<and>
      map etf_name (items out) = [Some (JStr (js ''K200'')), Some (JStr (js ''B''))]"
    using listing_truncation [OF pos, of "answering (js ''cb('' @ etf_text @ js '');'')",
        THEN conjunct2, THEN conjunct2, THEN conjunct2, THEN conjunct2,
        of "Finite 0" "js ''acc_amount''" "js ''desc''"]
    unfolding ev by simp
  from pos t m d e show ?thesis by blast
qed

section \<open>Rows without a name\<close>

text \<open>
  Claim C7. In the three table listings a row whose name is empty after trimming is
  skipped without a trace: the listing of a page with such a row among its rows is the
  listing the loop gives for the rows without it, for every \<open>limit\<close>, so the row is no
  item and takes no slot. The name is the trimmed text of the first name anchor; it is
  empty when the anchor holds only the blank U+3000, and when the row has no name anchor.
\<close>

theorem empty_name_row_skipped:
  "(theme_name r = [] \<longrightarrow>
      each (theme_row limit) (rows1 @ r # rows2) [] = each (theme_row limit) (rows1 @ rows2) [] \<and>
      (\<forall>D. fetchHtml E theme_url = Inr D \<longrightarrow>
           select D (js ''table tbody tr'') = rows1 @ r # rows2 \<longrightarrow>
           getThemesWithLeaders E limit =
             Inr \<lparr>url = theme_url, items = each (theme_row limit) (rows1 @ rows2) []\<rparr>)) \<and>
   (market_name r = [] \<longrightarrow>
      each (market_row limit) (rows1 @ r # rows2) [] = each (market_row limit) (rows1 @ rows2) [] \<and>
      (\<forall>D. fetchHtml E (market_url E sosok_arg page_arg) = Inr D \<longrightarrow>
           select D (js ''table.type_2 tbody tr'') = rows1 @ r # rows2 \<longrightarrow>
           getMarketCapStocks E sosok_arg page_arg limit =
             Inr \<lparr>url = market_url E sosok_arg page_arg,
                  items = each (market_row limit) (rows1 @ rows2) [],
                  page = page_arg, sosok = sosok_arg\<rparr>)) \<and>
   (dividend_name r = [] \<longrightarrow>
      each (dividend_row limit) (rows1 @ r # rows2) [] =
        each (dividend_row limit) (rows1 @ rows2) [] \<and>
      (\<forall>D. fetchHtml E (dividend_url E page_arg) = Inr D \<longrightarrow>
           select D (js ''table.tb_ty tbody tr'') = rows1 @ r # rows2 \<longrightarrow>
           getDividendYieldStocks E page_arg limit =
             Inr \<lparr>url = dividend_url E page_arg,
                  items = each (dividend_row limit) (rows1 @ rows2) [],
                  page = page_arg\<rparr>)) \<and>
   (text_sel (first_sel (elem_find r (js ''td.txt.frst a''))) = [0x3000] \<longrightarrow>
      dividend_name r = []) \<and>
   (elem_find r (js ''td.txt.frst a'') = [] \<longrightarrow> dividend_name r = [])"
proof -
  have t: "each (theme_row limit) (rows1 @ r # rows2) [] = each (theme_row limit) (rows1 @ rows2) []"
    if "theme_name r = []"
    using that by (simp add: theme_loop first_rows_skip)
  have m: "each (market_row limit) (rows1 @ r # rows2) [] = each (market_row limit) (rows1 @ rows2) []"
    if "market_name r = []"
    using that by (simp add: market_loop first_rows_skip)
  have d: "each (dividend_row limit) (rows1 @ r # rows2) [] =
      each (dividend_row limit) (rows1 @ rows2) []"
    if "dividend_name r = []"
    using that by (simp add: dividend_loop first_rows_skip)
  have blank: "dividend_name r = []"
    if "text_sel (first_sel (elem_find r (js ''td.txt.frst a''))) = [0x3000]"
    using that by (simp add: dividend_name_def trim_def is_space_def)
  have none: "dividend_name r = []" if "elem_find r (js ''td.txt.frst a'') = []"
    using that by (simp add: dividend_name_def trim_def first_sel_def text_sel_def)
  show ?thesis
    using t m d blank none
    by (simp add: getThemesWithLeaders_def getMarketCapStocks_def getDividendYieldStocks_def
        Let_def and_then_def)
qed

text \<open>
  With \<open>limit = 1\<close>: the spacer row that opens each table of the page is no item, and
  the one slot goes to the named row after it.
\<close>

theorem empty_name_row_skipped_witness:
  "theme_name blank_theme = [] \<and> market_name blank_market = [] \<and>
   dividend_name blank_dividend = [] \<and> dividend_name bare_row = [] \<and>
   getThemesWithLeaders tables_env 1 =
     Inr \<lparr>url = theme_url,
          items = each (theme_row 1) [theme_a, bare_row, theme_b, theme_a] []\<rparr> \<and>
   getMarketCapStocks tables_env (Finite 0) (Finite 1) 1 =
     Inr \<lparr>url = market_url tables_env (Finite 0) (Finite 1),
          items = each (market_row 1) [market_a, bare_row, market_b, market_a] [],
          page = Finite 1, sosok = Finite 0\<rparr> \<and>
   getDividendYieldStocks tables_env (Finite 1) 1 =
     Inr \<lparr>url = dividend_url tables_env (Finite 1),
          items = each (dividend_row 1) [comma_row, bare_row, dividend_b, comma_row] [],
          page = Finite 1\<rparr> \<and>
   each (theme_row 1) [theme_a, bare_row, theme_b, theme_a] [] = [theme_record theme_a] \<and>
   each (market_row 1) [market_a, bare_row, market_b, market_a] [] = [market_record market_a] \<and>
   each (dividend_row 1) [comma_row, bare_row, dividend_b, comma_row] [] =
     [dividend_record comma_row]"
proof -
  note inst = empty_name_row_skipped [where ?rows1.0 = "[]" and E = tables_env and limit = 1
      and sosok_arg = "Finite 0" and page_arg = "Finite 1"]
  have sel: "js ''table tbody tr'' \<noteq> js ''table.type_2 tbody tr''"
    "js ''table tbody tr'' \<noteq> js ''table.tb_ty tbody tr''"
    "js ''table.type_2 tbody tr'' \<noteq> js ''table.tb_ty tbody tr''"
    by (simp_all add: js_def)
  have fetched: "fetchHtml tables_env u =
      Inr \<lparr>select = (\<lambda>q. case map_of
              [(js ''table tbody tr'', [blank_theme, theme_a, bare_row, theme_b, theme_a]),
               (js ''table.type_2 tbody tr'', [blank_market, market_a, bare_row, market_b, market_a]),
               (js ''table.tb_ty tbody tr'', [blank_dividend, comma_row, bare_row, dividend_b, comma_row])] q
              of None \<Rightarrow> [] | Some els \<Rightarrow> els), html = []\<rparr>" for u
    by (simp add: fetchHtml_def tables_env_def serving_def env0_def and_then_def)
  have bt: "theme_name blank_theme = []"
    by (simp add: theme_name_def fixture_defs string_defs selection_defs)
  have bm: "market_name blank_market = []"
    by (simp add: market_name_def fixture_defs string_defs selection_defs)
  have bd: "dividend_name blank_dividend = []"
    using inst [where r = blank_dividend, THEN conjunct2, THEN conjunct2, THEN conjunct2,
        THEN conjunct1]
    by (simp add: fixture_defs js_def selection_defs)
  have bb: "dividend_name bare_row = []"
    using inst [where r = bare_row, THEN conjunct2, THEN conjunct2, THEN conjunct2,
        THEN conjunct2]
    by (simp add: fixture_defs js_def)
  have nt: "theme_name theme_a \<noteq> []"
    by (simp add: theme_name_def fixture_defs string_defs selection_defs)
  have nm: "market_name market_a \<noteq> []"
    by (simp add: market_name_def fixture_defs string_defs selection_defs)
  have nd: "dividend_name comma_row \<noteq> []"
    by (simp add: dividend_name_def fixture_defs string_defs selection_defs)
  have t: "getThemesWithLeaders tables_env 1 =
     Inr \<lparr>url = theme_url,
          items = each (theme_row 1) [theme_a, bare_row, theme_b, theme_a] []\<rparr>"
    using inst [where r = blank_theme and ?rows2.0 = "[theme_a, bare_row, theme_b, theme_a]",
        THEN conjunct1] bt
    by (simp add: fetched)
  have m: "getMarketCapStocks tables_env (Finite 0) (Finite 1) 1 =
     Inr \<lparr>url = market_url tables_env (Finite 0) (Finite 1),
          items = each (market_row 1) [market_a, bare_row, market_b, market_a] [],
          page = Finite 1, sosok = Finite 0\<rparr>"
    using inst [where r = blank_market and ?rows2.0 = "[market_a, bare_row, market_b, market_a]",
        THEN conjunct2, THEN conjunct1] bm sel
    by (simp add: fetched)
  have d: "getDividendYieldStocks tables_env (Finite 1) 1 =
     Inr \<lparr>url = dividend_url tables_env (Finite 1),
          items = each (dividend_row 1) [comma_row, bare_row, dividend_b, comma_row] [],
          page = Finite 1\<rparr>"
    using inst [where r = blank_dividend
        and ?rows2.0 = "[comma_row, bare_row, dividend_b, comma_row]",
        THEN conjunct2, THEN conjunct2, THEN conjunct1] bd sel
    by (simp add: fetched)
  have e1: "each (theme_row 1) [theme_a, bare_row, theme_b, theme_a] [] = [theme_record theme_a]"
    using nt by (simp add: theme_row_def go_on_def Let_def)
  have e2: "each (market_row 1) [market_a, bare_row, market_b, market_a] [] =
      [market_record market_a]"
    using nm by (simp add: market_row_def go_on_def Let_def)
  have e3: "each (dividend_row 1) [comma_row, bare_row, dividend_b, comma_row] [] =
      [dividend_record comma_row]"
    using nd by (simp add: dividend_row_def go_on_def Let_def)
  from bt bm bd bb t m d e1 e2 e3 show ?thesis by blast
qed

section \<open>The code of a row\<close>

text \<open>
  Claim C8. In the market-cap and dividend listings the code of a record is what
  \<open>code=(\d{6})\<close> matches in the link target of the row's name anchor: six digits that
  stand in the link target after \<open>code=\<close>. Without such a match, and so whenever the
  link target has no six digits in a row, the code is absent. Neither listing fails for
  a missing code: when the page was fetched the call returns, and every item is the
  record of a row of the table.
\<close>

theorem code_from_link_target:
  "stock_code (market_record el) =
     match_code (or_empty (attr_sel (first_sel (elem_find el (js ''td:nth-child(2) a'')))
                                    (js ''href''))) \<and>
   div_code (dividend_record el) =
     match_code (or_empty (attr_sel (first_sel (elem_find el (js ''td.txt.frst a'')))
                                    (js ''href''))) \<and>
   (\<forall>c. match_code h = Some c \<longrightarrow>
      length c = 6 \<and> list_all is_digit c \<and> (\<exists>pre suf. h = pre @ js ''code='' @ c @ suf)) \<and>
   (match_code h = None \<longleftrightarrow>
      \<not> (\<exists>pre c suf. h = pre @ js ''code='' @ c @ suf \<and> length c = 6 \<and> list_all is_digit c)) \<and>
   (\<not> (\<exists>pre c suf. h = pre @ c @ suf \<and> length c = 6 \<and> list_all is_digit c) \<longrightarrow>
      match_code h = None) \<and>
   (\<forall>D. fetchHtml E (market_url E sosok_arg page_arg) = Inr D \<longrightarrow>
      (\<exists>out. getMarketCapStocks E sosok_arg page_arg limit = Inr out \<and>
         set (items out) \<subseteq> market_record ` set (select D (js ''table.type_2 tbody tr'')))) \<and>
   (\<forall>D. fetchHtml E (dividend_url E page_arg) = Inr D \<longrightarrow>
      (\<exists>out. getDividendYieldStocks E page_arg limit = Inr out \<and>
         set (items out) \<subseteq> dividend_record ` set (select D (js ''table.tb_ty tbody tr''))))"
proof -
  have m: "stock_code (market_record el) =
     match_code (or_empty (attr_sel (first_sel (elem_find el (js ''td:nth-child(2) a'')))
                                    (js ''href'')))"
    by (simp add: market_record_def Let_def)
  have d: "div_code (dividend_record el) =
     match_code (or_empty (attr_sel (first_sel (elem_find el (js ''td.txt.frst a'')))
                                    (js ''href'')))"
    by (simp add: dividend_record_def Let_def)
  have some: "\<forall>c. match_code h = Some c \<longrightarrow>
      length c = 6 \<and> list_all is_digit c \<and> (\<exists>pre suf. h = pre @ js ''code='' @ c @ suf)"
    using match_code_Some by blast
  have none: "match_code h = None \<longleftrightarrow>
      \<not> (\<exists>pre c suf. h = pre @ js ''code='' @ c @ suf \<and> length c = 6 \<and> list_all is_digit c)"
    by (rule match_code_None_iff)
  have digits: "match_code h = None"
    if "\<not> (\<exists>pre c suf. h = pre @ c @ suf \<and> length c = 6 \<and> list_all is_digit c)"
  proof (rule ccontr)
    assume "match_code h \<noteq> None"
    then obtain c where "match_code h = Some c" by blast
    from match_code_Some [OF this] obtain pre suf where
      "length c = 6" "list_all is_digit c" "h = (pre @ js ''code='') @ c @ suf" by auto
    with that show False by blast
  qed
  have ml: "\<exists>out. getMarketCapStocks E sosok_arg page_arg limit = Inr out \<and>
         set (items out) \<subseteq> market_record ` set (select D (js ''table.type_2 tbody tr''))"
    if "fetchHtml E (market_url E sosok_arg page_arg) = Inr D" for D
    using that first_rows_subset [of "max 1 limit" market_name market_record]
    by (simp add: getMarketCapStocks_def Let_def and_then_def market_loop)
  have dl: "\<exists>out. getDividendYieldStocks E page_arg limit = Inr out \<and>
         set (items out) \<subseteq> dividend_record ` set (select D (js ''table.tb_ty tbody tr''))"
    if "fetchHtml E (dividend_url E page_arg) = Inr D" for D
    using that first_rows_subset [of "max 1 limit" dividend_name dividend_record]
    by (simp add: getDividendYieldStocks_def Let_def and_then_def dividend_loop)
  from m d some none digits ml dl show ?thesis by blast
qed

text \<open>
  On the page of the fixtures: the link of row \<open>A\<close> carries \<open>code=005930\<close>, the link of
  row \<open>B\<close> carries six digits after \<open>id=\<close> and no \<open>code=\<close>; both listings return, with
  the code \<open>005930\<close> for \<open>A\<close> and no code for \<open>B\<close>.
\<close>

theorem code_from_link_target_witness:
  "stock_code (market_record market_a) = Some (js ''005930'') \<and>
   length (js ''005930'') = 6 \<and> list_all is_digit (js ''005930'') \<and>
   stock_code (market_record market_b) = None \<and>
   div_code (dividend_record dividend_b) = None \<and>
   (\<exists>out. getMarketCapStocks tables_env (Finite 0) (Finite 1) 50 = Inr out \<and>
      map stock_code (items out) = [Some (js ''005930''), None, Some (js ''005930'')]) \<and>
   (\<exists>out. getDividendYieldStocks tables_env (Finite 1) 50 = Inr out \<and>
      map div_code (items out) = [Some (js ''005930''), None, Some (js ''005930'')])"
proof -
  have ha: "match_code (js ''/item/main.naver?code=005930'') = Some (js ''005930'')"
    by (simp add: js_def is_digit_def)
  have hb: "match_code (js ''/item/main.naver?id=000660'') = None"
    by (simp add: js_def is_digit_def)
  note a = code_from_link_target [of market_a "js ''/item/main.naver?code=005930''" tables_env
      "Finite 0" "Finite 1" 50]
  have 1: "stock_code (market_record market_a) = Some (js ''005930'')"
    using a [THEN conjunct1] ha by (simp add: fixture_defs selection_defs js_def)
  have 2: "length (js ''005930'') = 6 \<and> list_all is_digit (js ''005930'')"
    using a [THEN conjunct2, THEN conjunct2, THEN conjunct1] ha by blast
  have 3: "stock_code (market_record market_b) = None"
    using code_from_link_target [of market_b, THEN conjunct1] hb
    by (simp add: fixture_defs selection_defs js_def)
  have 4: "div_code (dividend_record dividend_b) = None"
    using code_from_link_target [of dividend_b, THEN conjunct2, THEN conjunct1] hb
    by (simp add: fixture_defs selection_defs js_def)
  have 5: "\<exists>out. getMarketCapStocks tables_env (Finite 0) (Finite 1) 50 = Inr out \<and>
      map stock_code (items out) = [Some (js ''005930''), None, Some (js ''005930'')]"
    by (simp add: fixture_defs string_defs number_defs selection_defs table_defs Let_def)
  have 6: "\<exists>out. getDividendYieldStocks tables_env (Finite 1) 50 = Inr out \<and>
      map div_code (items out) = [Some (js ''005930''), None, Some (js ''005930'')]"
    by (simp add: fixture_defs string_defs number_defs selection_defs table_defs Let_def)
  from 1 2 3 4 5 6 show ?thesis by blast
qed

section \<open>Numeric fields of a fund\<close>

text \<open>
  Claim C9. In a record of the fund listing, the \<open>value\<close> of each of the five numeric
  fields is the provider's field when that is a JSON number, and absent otherwise: the
  normalizer has no part in it. A field that is a string is kept as \<open>raw\<close> with no
  \<open>value\<close>, also when the normalizer would read a number from it.
\<close>

theorem etf_value_iff_number:
  assumes "etf_record E etf = Inr r"
  shows
    "(val (etf_currentPrice r) = Some n \<longleftrightarrow> field etf (js ''nowVal'') = Some (JNum n)) \<and>
     (val (etf_nav r) = Some n \<longleftrightarrow> field etf (js ''nav'') = Some (JNum n)) \<and>
     (val (etf_volume r) = Some n \<longleftrightarrow> field etf (js ''quant'') = Some (JNum n)) \<and>
     (val (etf_tradingValueMillion r) = Some n \<longleftrightarrow>
        field etf (js ''amonut'') = Some (JNum n)) \<and>
     (val (etf_marketCapHundredMillion r) = Some n \<longleftrightarrow>
        field etf (js ''marketSum'') = Some (JNum n)) \<and>
     (\<forall>s. field etf (js ''nowVal'') = Some (JStr s) \<longrightarrow>
          etf_currentPrice r = \<lparr>raw = s, val = None\<rparr>) \<and>
     (\<forall>s. field etf (js ''nav'') = Some (JStr s) \<longrightarrow> etf_nav r = \<lparr>raw = s, val = None\<rparr>) \<and>
     (\<forall>s. field etf (js ''quant'') = Some (JStr s) \<longrightarrow> etf_volume r = \<lparr>raw = s, val = None\<rparr>) \<and>
     (\<forall>s. field etf (js ''amonut'') = Some (JStr s) \<longrightarrow>
          etf_tradingValueMillion r = \<lparr>raw = s, val = None\<rparr>) \<and>
     (\<forall>s. field etf (js ''marketSum'') = Some (JStr s) \<longrightarrow>
          etf_marketCapHundredMillion r = \<lparr>raw = s, val = None\<rparr>)"
proof -
  have num: "number_or_null v = Some n \<longleftrightarrow> v = Some (JNum n)" for v
    by (auto simp: number_or_null_def split: option.splits json.splits)
  have mf: "val m = number_or_null v \<and> (\<forall>s. v = Some (JStr s) \<longrightarrow> m = \<lparr>raw = s, val = None\<rparr>)"
    if "measured_field E v = Inr m" for v m
    using that
    by (auto simp: measured_field_def and_then_Inr raw_text_def number_or_null_def)
  from assms obtain currentPrice nav volume tradingValueMillion marketCapHundredMillion where
    f: "measured_field E (field etf (js ''nowVal'')) = Inr currentPrice"
       "measured_field E (field etf (js ''nav'')) = Inr nav"
       "measured_field E (field etf (js ''quant'')) = Inr volume"
       "measured_field E (field etf (js ''amonut'')) = Inr tradingValueMillion"
       "measured_field E (field etf (js ''marketSum'')) = Inr marketCapHundredMillion"
    and r: "etf_currentPrice r = currentPrice" "etf_nav r = nav" "etf_volume r = volume"
       "etf_tradingValueMillion r = tradingValueMillion"
       "etf_marketCapHundredMillion r = marketCapHundredMillion"
    unfolding etf_record_def and_then_Inr by auto
  from f(1) [THEN mf] f(2) [THEN mf] f(3) [THEN mf] f(4) [THEN mf] f(5) [THEN mf]
  show ?thesis unfolding r by (simp only: num) simp
qed

text \<open>
  The two first funds of the listing fixture: the price of the first is the number
  \<open>35120\<close>; the price of the second is the string \<open>"35120"\<close> and its record has no
  \<open>value\<close>, though the normalizer reads \<open>35120\<close> from that text. The net asset value of
  the first, the string \<open>"35,150"\<close>, has no \<open>value\<close> either.
\<close>

theorem etf_value_iff_number_witness:
  "(\<exists>r. etf_record (answering []) (JObj [(js ''itemname'', JStr (js ''B'')),
                                         (js ''nowVal'', JStr (js ''35120''))]) = Inr r \<and>
        etf_currentPrice r = \<lparr>raw = js ''35120'', val = None\<rparr>) \<and>
   parseKoreanNumber (js ''35120'') = Some (Finite 35120) \<and>
   (\<exists>r. etf_record (answering [])
           (JObj [(js ''itemcode'', JStr (js ''069500'')),
                  (js ''itemname'', JStr (js ''K200'')),
                  (js ''nowVal'', JNum (Finite 35120)),
                  (js ''changeRate'', JNum (Finite (-53 / 100))),
                  (js ''nav'', JStr (js ''35,150''))]) = Inr r \<and>
        val (etf_currentPrice r) = Some (Finite 35120) \<and>
        etf_nav r = \<lparr>raw = js ''35,150'', val = None\<rparr>) \<and>
   parseKoreanNumber (js ''35,150'') = Some (Finite 35150)"
proof -
  define b where "b = JObj [(js ''itemname'', JStr (js ''B'')), (js ''nowVal'', JStr (js ''35120''))]"
  define k where "k = JObj [(js ''itemcode'', JStr (js ''069500'')),
                  (js ''itemname'', JStr (js ''K200'')),
                  (js ''nowVal'', JNum (Finite 35120)),
                  (js ''changeRate'', JNum (Finite (-53 / 100))),
                  (js ''nav'', JStr (js ''35,150''))]"
  obtain rb where rb: "etf_record (answering []) b = Inr rb"
    by (simp add: b_def etf_defs fixture_defs js_def)
  obtain rk where rk: "etf_record (answering []) k = Inr rk"
    by (simp add: k_def etf_defs fixture_defs js_def)
  have fb: "field b (js ''nowVal'') = Some (JStr (js ''35120''))"
    by (simp add: b_def field_def js_def)
  have fk: "field k (js ''nowVal'') = Some (JNum (Finite 35120))"
    "field k (js ''nav'') = Some (JStr (js ''35,150''))"
    by (simp_all add: k_def field_def js_def)
  have 1: "etf_currentPrice rb = \<lparr>raw = js ''35120'', val = None\<rparr>"
    using etf_value_iff_number [OF rb] fb by blast
  have 2: "val (etf_currentPrice rk) = Some (Finite 35120)"
    using etf_value_iff_number [OF rk, of "Finite 35120"] fk by blast
  have 3: "etf_nav rk = \<lparr>raw = js ''35,150'', val = None\<rparr>"
    using etf_value_iff_number [OF rk] fk by blast
  have p: "parseKoreanNumber (js ''35120'') = Some (Finite 35120)"
    "parseKoreanNumber (js ''35,150'') = Some (Finite 35150)"
    by (simp_all add: number_defs string_defs)
  from rb rk 1 2 3 p show ?thesis unfolding b_def k_def by blast
qed

section \<open>A success report without a list\<close>

text \<open>
  Claim C10. When the envelope parses and its status is \<open>success\<close>, but the payload is
  missing or \<open>null\<close>, or has no list (or the list \<open>null\<close>), the call does not fail: it
  returns the request URL and no items.
\<close>

theorem missing_list_gives_no_items:
  assumes "field json (js ''resultCode'') = Some (JStr (js ''success''))"
    and "nullish (field json (js ''result'')) \<or>
         (\<exists>payload. field json (js ''result'') = Some payload \<and>
                    nullish (field payload (js ''etfItemList'')))"
  shows
    "etf_listing E u limit json = Inr \<lparr>url = u, items = []\<rparr> \<and>
     (\<forall>body jsonText.
        axios_get E (etf_api_url E etfType targetColumn sortOrder) = Inr body \<and>
        extract_json_text (trim body) = Inr jsonText \<and>
        JSON_parse E jsonText = Some json \<longrightarrow>
        getEtfsByMarketCap E limit etfType targetColumn sortOrder =
          Inr \<lparr>url = etf_api_url E etfType targetColumn sortOrder, items = []\<rparr>)"
proof -
  from assms(1) have nn: "json \<noteq> JNull" by (auto simp: field_def)
  from assms(2) have "nullish (opt_field (field json (js ''result'')) (js ''etfItemList''))"
    by (auto simp: nullish_def opt_field_def split: json.splits)
  then have list: "etfItemList json = JArr []"
    by (auto simp: etfItemList_def or_default_def nullish_def)
  have l: "etf_listing E v limit json = Inr \<lparr>url = v, items = []\<rparr>" for v
    using assms(1) nn list
    by (simp add: etf_listing_def get_prop_def and_then_def slice_js_def Let_def)
  have "getEtfsByMarketCap E limit etfType targetColumn sortOrder =
          Inr \<lparr>url = etf_api_url E etfType targetColumn sortOrder, items = []\<rparr>"
    if "axios_get E (etf_api_url E etfType targetColumn sortOrder) = Inr body \<and>
        extract_json_text (trim body) = Inr jsonText \<and>
        JSON_parse E jsonText = Some json" for body jsonText
    using that l by (simp add: getEtfsByMarketCap_def etf_from_body_def Let_def and_then_def)
  with l show ?thesis by blast
qed

text \<open>The success report without a payload, and the one with the empty payload.\<close>

theorem missing_list_gives_no_items_witness:
  "field bare_value (js ''resultCode'') = Some (JStr (js ''success'')) \<and>
   nullish (field bare_value (js ''result'')) \<and>
   getEtfsByMarketCap (answering (js ''cb('' @ bare_text @ js '');'')) 50 (Finite 0)
     (js ''acc_amount'') (js ''desc'') =
     Inr \<lparr>url = etf_api_url (answering (js ''cb('' @ bare_text @ js '');'')) (Finite 0)
                  (js ''acc_amount'') (js ''desc''),
          items = []\<rparr> \<and>
   field empty_value (js ''resultCode'') = Some (JStr (js ''success'')) \<and>
   field empty_value (js ''result'') = Some (JObj []) \<and>
   nullish (field (JObj []) (js ''etfItemList'')) \<and>
   etf_listing (answering []) (js ''u'') 50 empty_value = Inr \<lparr>url = js ''u'', items = []\<rparr>"
proof -
  have b1: "field bare_value (js ''resultCode'') = Some (JStr (js ''success''))"
    and b2: "nullish (field bare_value (js ''result''))"
    by (simp_all add: field_def nullish_def bare_value_def js_def)
  have e1: "field empty_value (js ''resultCode'') = Some (JStr (js ''success''))"
    and e2: "field empty_value (js ''result'') = Some (JObj [])"
    and e3: "nullish (field (JObj []) (js ''etfItemList''))"
    by (simp_all add: field_def nullish_def empty_value_def js_def)
  have body: "axios_get (answering (js ''cb('' @ bare_text @ js '');''))
       (etf_api_url (answering (js ''cb('' @ bare_text @ js '');'')) (Finite 0)
         (js ''acc_amount'') (js ''desc'')) = Inr (js ''cb('' @ bare_text @ js '');'')"
    by (simp add: answering_def env0_def)
  have ex: "extract_json_text (trim (js ''cb('' @ bare_text @ js '');'')) = Inr bare_text"
    by (simp add: extract_json_text_def slice_js_def bare_text_def string_defs Let_def)
  have pa: "JSON_parse (answering (js ''cb('' @ bare_text @ js '');'')) bare_text = Some bare_value"
    by (simp add: answering_def env0_def parsed_def etf_text_def failure_text_def bare_text_def
        js_def)
  have 1: "getEtfsByMarketCap (answering (js ''cb('' @ bare_text @ js '');'')) 50 (Finite 0)
     (js ''acc_amount'') (js ''desc'') =
     Inr \<lparr>url = etf_api_url (answering (js ''cb('' @ bare_text @ js '');'')) (Finite 0)
                  (js ''acc_amount'') (js ''desc''),
          items = []\<rparr>"
    using missing_list_gives_no_items [OF b1, of "answering (js ''cb('' @ bare_text @ js '');'')"
        _ 50 "Finite 0" "js ''acc_amount''" "js ''desc''", THEN conjunct2] b2 body ex pa
    by blast
  have 2: "etf_listing (answering []) (js ''u'') 50 empty_value = Inr \<lparr>url = js ''u'', items = []\<rparr>"
    using missing_list_gives_no_items [OF e1, of "answering []" "js ''u''" 50, THEN conjunct1]
      e2 e3
    by blast
  from b1 b2 1 e1 e2 e3 2 show ?thesis by blast
qed

end
